theory Spec2Isabelle
  imports Complex_Main "HOL-Library.AList" "HOL-Library.Monad_Syntax" "HOL-Library.Sublist"
begin

section \<open>Hypoglycaemia risk calculator: the model of app.py\<close>

text \<open>
  The program is one Python script. Its computation is the coefficient table \<open>COEF\<close>,
  the helpers \<open>logistic\<close>, \<open>logit_from_inputs\<close> and \<open>contributions\<close>, and the
  tier branch of the page layout.

  Conventions of the embedding.
  \<^item> Numbers are modelled twice. In \<open>logistic\<close>, \<open>logit_from_inputs\<close> and
    \<open>contributions\<close> a Python \<open>float\<close> (and the \<open>int\<close> the haemoglobin widget
    returns) is a \<open>real\<close> and the arithmetic is exact. In \<open>logistic_f64\<close>,
    \<open>logit_from_inputs_f64\<close> and \<open>contributions_f64\<close> every sum, difference,
    product and quotient is rounded to the nearest double, as the interpreter does; the
    claims whose truth depends on rounding are settled on these.
  \<^item> A Python \<open>str\<close> is a \<open>string\<close> holding its UTF-8 bytes: an ASCII character is
    one \<open>char\<close>, any other code point is written as its bytes (\<open>CHR 0x..\<close>).
    Equality of strings and the search for an ASCII substring give the same answer on the
    bytes as on the code points.
  \<^item> A \<open>dict\<close> read by key is a map; a lookup of a missing key raises \<open>KeyError\<close>, which
    is the value \<open>None\<close> of the function that performs it. The dictionary that
    \<open>contributions\<close> builds and returns keeps its insertion order, so it is an
    association list written with \<open>AList.update\<close> (replace in place, or append).
\<close>

subsection \<open>String literals that are not ASCII\<close>

definition en_dash :: string where
  \<comment> \<open>U+2013, the dash inside the labels of the DBP bands\<close>
  "en_dash = [CHR 0xE2, CHR 0x80, CHR 0x93]"

definition ge_sign :: string where
  \<comment> \<open>U+2265, in the feature name of the NRS flag\<close>
  "ge_sign = [CHR 0xE2, CHR 0x89, CHR 0xA5]"

definition no_option :: string where
  \<comment> \<open>the first entry of the yes/no select boxes: \<open>No / \<close> followed by U+5426\<close>
  "no_option = ''No / '' @ [CHR 0xE5, CHR 0x90, CHR 0xA6]"

definition yes_option :: string where
  \<comment> \<open>the second entry of the yes/no select boxes: \<open>Yes / \<close> followed by U+662F\<close>
  "yes_option = ''Yes / '' @ [CHR 0xE6, CHR 0x98, CHR 0xAF]"

subsection \<open>Coefficients (lines 14 to 28)\<close>

definition COEF :: "string \<rightharpoonup> real" where
  "COEF = map_of
    [(''intercept'', -6.18),
     (''dx_colon'', -2.342),
     (''dx_gastric'', -3.267),
     (''dx_esophageal'', -1.344),
     (''dx_other'', -1.534),
     (''lax_yes'', 2.826),
     (''dbp_cat2'', 1.928),
     (''dbp_cat3'', 0.287),
     (''dbp_cat4'', -0.168),
     (''bun'', 0.101),
     (''glucose'', 0.074),
     (''hb'', 0.151),
     (''nrs_yes'', 5.46)]"

subsection \<open>The select boxes of the sidebar (lines 33 to 49)\<close>

definition diagnosis_options :: "string list" where
  "diagnosis_options =
    [''Gallbladder/pancreatic disease (reference)'',
     ''Colonic lesion'', ''Gastric neoplasm'', ''Esophageal lesion'', ''Other diseases'']"

definition dbp_options :: "string list" where
  "dbp_options =
    [''< 90 mmHg (reference)'', ''90'' @ en_dash @ ''100 mmHg'',
     ''101'' @ en_dash @ ''110 mmHg'', ''> 110 mmHg'']"

definition yes_no_options :: "string list" where
  "yes_no_options = [no_option, yes_option]"

subsection \<open>Helpers (lines 56 to 82)\<close>

definition logistic :: "real \<Rightarrow> real" where
  "logistic x = 1 / (1 + exp (- x))"

fun str_in :: "string \<Rightarrow> string \<Rightarrow> bool" where
  \<comment> \<open>Python's \<open>needle in haystack\<close> on two strings\<close>
  "str_in needle [] = (needle = [])"
| "str_in needle (c # cs) = (prefix needle (c # cs) \<or> str_in needle cs)"

definition add_coef :: "real \<Rightarrow> string \<Rightarrow> real option" where
  \<comment> \<open>the statement \<open>z += COEF[k]\<close>\<close>
  "add_coef z k = do { c \<leftarrow> COEF k; Some (z + c) }"

definition logit_from_inputs ::
  "string \<Rightarrow> string \<Rightarrow> real \<Rightarrow> real \<Rightarrow> real \<Rightarrow> string \<Rightarrow> string \<Rightarrow> real option" where
  "logit_from_inputs diagnosis dbp_cat glucose bun hb lax nrs = do {
     c0 \<leftarrow> COEF ''intercept'';
     cg \<leftarrow> COEF ''glucose'';
     cb \<leftarrow> COEF ''bun'';
     ch \<leftarrow> COEF ''hb'';
     let z = c0 + cg * glucose + cb * bun + ch * hb;
     z \<leftarrow> (if dbp_cat = ''90'' @ en_dash @ ''100 mmHg'' then add_coef z ''dbp_cat2''
          else if dbp_cat = ''101'' @ en_dash @ ''110 mmHg'' then add_coef z ''dbp_cat3''
          else if dbp_cat = ''> 110 mmHg'' then add_coef z ''dbp_cat4''
          else Some z);
     z \<leftarrow> (if str_in ''Yes'' lax then add_coef z ''lax_yes'' else Some z);
     z \<leftarrow> (if str_in ''Yes'' nrs then add_coef z ''nrs_yes'' else Some z);
     z \<leftarrow> (if diagnosis = ''Colonic lesion'' then add_coef z ''dx_colon''
          else if diagnosis = ''Gastric neoplasm'' then add_coef z ''dx_gastric''
          else if diagnosis = ''Esophageal lesion'' then add_coef z ''dx_esophageal''
          else if diagnosis = ''Other diseases'' then add_coef z ''dx_other''
          else Some z);
     Some z
   }"

datatype pyval = Num real | Str string

definition num_at :: "(string \<rightharpoonup> pyval) \<Rightarrow> string \<Rightarrow> real option" where
  \<comment> \<open>\<open>base[k]\<close> used as a number: a missing key or a string operand raises\<close>
  "num_at d k = (case d k of Some (Num v) \<Rightarrow> Some v | _ \<Rightarrow> None)"

fun level_loop ::
  "string \<Rightarrow> (string \<times> string) list \<Rightarrow> string \<Rightarrow> (string \<times> real) list
    \<Rightarrow> (string \<times> real) list option" where
  \<comment> \<open>the two \<open>for\<close> loops over (coefficient key, label) pairs: each turn stores
      \<open>COEF[k] * (1.0 if value == label else 0.0)\<close> under the key \<open>prefix + label\<close>\<close>
  "level_loop pre [] val contrib = Some contrib"
| "level_loop pre ((k, label) # rest) val contrib = do {
     w \<leftarrow> COEF k;
     level_loop pre rest val
       (AList.update (pre @ label) (w * (if val = label then 1 else 0)) contrib)
   }"

definition contributions ::
  "string \<Rightarrow> string \<Rightarrow> real \<Rightarrow> real \<Rightarrow> real \<Rightarrow> string \<Rightarrow> string \<Rightarrow> (string \<rightharpoonup> pyval)
    \<Rightarrow> (string \<times> real) list option" where
  "contributions diagnosis dbp_cat glucose bun hb lax nrs base = do {
     let contrib = [];
     cg \<leftarrow> COEF ''glucose'';
     bg \<leftarrow> num_at base ''glucose'';
     let contrib = AList.update ''Serum_glucose (mmol/L)'' (cg * (glucose - bg)) contrib;
     cb \<leftarrow> COEF ''bun'';
     bb \<leftarrow> num_at base ''bun'';
     let contrib = AList.update ''Blood_urea_nitrogen (mmol/L)'' (cb * (bun - bb)) contrib;
     ch \<leftarrow> COEF ''hb'';
     bh \<leftarrow> num_at base ''hb'';
     let contrib = AList.update ''Hemoglobin (g/L)'' (ch * (hb - bh)) contrib;
     contrib \<leftarrow> level_loop ''DBP: ''
       [(''dbp_cat2'', ''90'' @ en_dash @ ''100 mmHg''),
        (''dbp_cat3'', ''101'' @ en_dash @ ''110 mmHg''),
        (''dbp_cat4'', ''> 110 mmHg'')] dbp_cat contrib;
     cl \<leftarrow> COEF ''lax_yes'';
     let contrib = AList.update ''Laxative use (Yes)''
       (cl * (if str_in ''Yes'' lax then 1 else 0)) contrib;
     cn \<leftarrow> COEF ''nrs_yes'';
     let contrib = AList.update (''NRS-2002 '' @ ge_sign @ ''3 (Yes)'')
       (cn * (if str_in ''Yes'' nrs then 1 else 0)) contrib;
     contrib \<leftarrow> level_loop ''Diagnosis: ''
       [(''dx_colon'', ''Colonic lesion''), (''dx_gastric'', ''Gastric neoplasm''),
        (''dx_esophageal'', ''Esophageal lesion''), (''dx_other'', ''Other diseases'')]
       diagnosis contrib;
     Some contrib
   }"

subsection \<open>Double precision\<close>

text \<open>
  An IEEE 754 binary64 operation returns the exact result rounded to the nearest double,
  ties going to the even significand. \<open>fl\<close> is that rounding on the reals: a double is
  an integer multiple of the unit of its binade, \<open>2 powi (binade x - 52)\<close>, with the
  exponent held at \<open>- 1022\<close> for subnormal numbers. Three things are left out. The
  range is not bounded above: a result of \<open>2 ^ 1024\<close> or more, which the interpreter
  replaces by \<open>inf\<close>, is modelled only where it can arise, in \<open>numpy.exp\<close>; the
  widgets keep every other value below \<open>2 ^ 8\<close>. The two zeros are one number: they
  compare equal in Python. And \<open>numpy.exp\<close>, which is not part of the program, is
  taken to return the double nearest to the exponential.
\<close>

definition rne :: "real \<Rightarrow> int" where
  \<comment> \<open>the nearest integer, the even one of the two when \<open>t\<close> lies half way\<close>
  "rne t = (if t - of_int \<lfloor>t\<rfloor> < 1 / 2 then \<lfloor>t\<rfloor>
            else if 1 / 2 < t - of_int \<lfloor>t\<rfloor> then \<lfloor>t\<rfloor> + 1
            else if even \<lfloor>t\<rfloor> then \<lfloor>t\<rfloor> else \<lfloor>t\<rfloor> + 1)"

definition binade :: "real \<Rightarrow> int" where
  \<comment> \<open>the exponent \<open>k\<close> with \<open>2 powi k \<le> \<bar>x\<bar> < 2 powi (k + 1)\<close>, at least \<open>- 1022\<close>\<close>
  "binade x = max \<lfloor>log 2 \<bar>x\<bar>\<rfloor> (- 1022)"

definition ulp :: "real \<Rightarrow> real" where
  \<comment> \<open>the distance between neighbouring doubles around \<open>x\<close>: 53 significant bits\<close>
  "ulp x = 2 powi (binade x - 52)"

definition fl :: "real \<Rightarrow> real" where
  \<comment> \<open>the double nearest to \<open>x\<close>; lemma \<open>fl_eq_dyadic\<close> computes it at a given number\<close>
  "fl x = (if x = 0 then 0 else of_int (rne (x / ulp x)) * ulp x)"

definition fadd :: "real \<Rightarrow> real \<Rightarrow> real" where
  "fadd a b = fl (a + b)"

definition fsub :: "real \<Rightarrow> real \<Rightarrow> real" where
  "fsub a b = fl (a - b)"

definition fmul :: "real \<Rightarrow> real \<Rightarrow> real" where
  "fmul a b = fl (a * b)"

definition fdiv :: "real \<Rightarrow> real \<Rightarrow> real option" where
  \<comment> \<open>\<open>None\<close> where the divisor is zero (numpy returns an infinity or nan there)\<close>
  "fdiv a b = (if b = 0 then None else Some (fl (a / b)))"

definition np_exp :: "real \<Rightarrow> real option" where
  \<comment> \<open>\<open>numpy.exp\<close> on a double; \<open>None\<close> is the result \<open>inf\<close> of an overflow\<close>
  "np_exp x = (if 2 ^ 1024 \<le> fl (exp x) then None else Some (fl (exp x)))"

definition COEF_f64 :: "string \<rightharpoonup> real" where
  \<comment> \<open>a decimal literal of the table denotes the double nearest to it\<close>
  "COEF_f64 k = map_option fl (COEF k)"

definition logistic_f64 :: "real \<Rightarrow> real option" where
  \<comment> \<open>line 56 in doubles; after an overflow \<open>1 + inf\<close> is \<open>inf\<close> and \<open>1 / inf\<close> is 0\<close>
  "logistic_f64 x =
     (case np_exp (- x) of None \<Rightarrow> Some 0 | Some e \<Rightarrow> fdiv 1 (fadd 1 e))"

definition add_coef_f64 :: "real \<Rightarrow> string \<Rightarrow> real option" where
  \<comment> \<open>\<open>z += COEF[k]\<close> in doubles; the four functions below are the helpers above with
      every operation rounded\<close>
  "add_coef_f64 z k = do { c \<leftarrow> COEF_f64 k; Some (fadd z c) }"

definition logit_from_inputs_f64 ::
  "string \<Rightarrow> string \<Rightarrow> real \<Rightarrow> real \<Rightarrow> real \<Rightarrow> string \<Rightarrow> string \<Rightarrow> real option" where
  "logit_from_inputs_f64 diagnosis dbp_cat glucose bun hb lax nrs = do {
     c0 \<leftarrow> COEF_f64 ''intercept'';
     cg \<leftarrow> COEF_f64 ''glucose'';
     cb \<leftarrow> COEF_f64 ''bun'';
     ch \<leftarrow> COEF_f64 ''hb'';
     let z = fadd (fadd (fadd c0 (fmul cg glucose)) (fmul cb bun)) (fmul ch hb);
     z \<leftarrow> (if dbp_cat = ''90'' @ en_dash @ ''100 mmHg'' then add_coef_f64 z ''dbp_cat2''
          else if dbp_cat = ''101'' @ en_dash @ ''110 mmHg'' then add_coef_f64 z ''dbp_cat3''
          else if dbp_cat = ''> 110 mmHg'' then add_coef_f64 z ''dbp_cat4''
          else Some z);
     z \<leftarrow> (if str_in ''Yes'' lax then add_coef_f64 z ''lax_yes'' else Some z);
     z \<leftarrow> (if str_in ''Yes'' nrs then add_coef_f64 z ''nrs_yes'' else Some z);
     z \<leftarrow> (if diagnosis = ''Colonic lesion'' then add_coef_f64 z ''dx_colon''
          else if diagnosis = ''Gastric neoplasm'' then add_coef_f64 z ''dx_gastric''
          else if diagnosis = ''Esophageal lesion'' then add_coef_f64 z ''dx_esophageal''
          else if diagnosis = ''Other diseases'' then add_coef_f64 z ''dx_other''
          else Some z);
     Some z
   }"

fun level_loop_f64 ::
  "string \<Rightarrow> (string \<times> string) list \<Rightarrow> string \<Rightarrow> (string \<times> real) list
    \<Rightarrow> (string \<times> real) list option" where
  "level_loop_f64 pre [] val contrib = Some contrib"
| "level_loop_f64 pre ((k, label) # rest) val contrib = do {
     w \<leftarrow> COEF_f64 k;
     level_loop_f64 pre rest val
       (AList.update (pre @ label) (fmul w (if val = label then 1 else 0)) contrib)
   }"

definition contributions_f64 ::
  "string \<Rightarrow> string \<Rightarrow> real \<Rightarrow> real \<Rightarrow> real \<Rightarrow> string \<Rightarrow> string \<Rightarrow> (string \<rightharpoonup> pyval)
    \<Rightarrow> (string \<times> real) list option" where
  "contributions_f64 diagnosis dbp_cat glucose bun hb lax nrs base = do {
     let contrib = [];
     cg \<leftarrow> COEF_f64 ''glucose'';
     bg \<leftarrow> num_at base ''glucose'';
     let contrib = AList.update ''Serum_glucose (mmol/L)'' (fmul cg (fsub glucose bg)) contrib;
     cb \<leftarrow> COEF_f64 ''bun'';
     bb \<leftarrow> num_at base ''bun'';
     let contrib = AList.update ''Blood_urea_nitrogen (mmol/L)'' (fmul cb (fsub bun bb)) contrib;
     ch \<leftarrow> COEF_f64 ''hb'';
     bh \<leftarrow> num_at base ''hb'';
     let contrib = AList.update ''Hemoglobin (g/L)'' (fmul ch (fsub hb bh)) contrib;
     contrib \<leftarrow> level_loop_f64 ''DBP: ''
       [(''dbp_cat2'', ''90'' @ en_dash @ ''100 mmHg''),
        (''dbp_cat3'', ''101'' @ en_dash @ ''110 mmHg''),
        (''dbp_cat4'', ''> 110 mmHg'')] dbp_cat contrib;
     cl \<leftarrow> COEF_f64 ''lax_yes'';
     let contrib = AList.update ''Laxative use (Yes)''
       (fmul cl (if str_in ''Yes'' lax then 1 else 0)) contrib;
     cn \<leftarrow> COEF_f64 ''nrs_yes'';
     let contrib = AList.update (''NRS-2002 '' @ ge_sign @ ''3 (Yes)'')
       (fmul cn (if str_in ''Yes'' nrs then 1 else 0)) contrib;
     contrib \<leftarrow> level_loop_f64 ''Diagnosis: ''
       [(''dx_colon'', ''Colonic lesion''), (''dx_gastric'', ''Gastric neoplasm''),
        (''dx_esophageal'', ''Esophageal lesion''), (''dx_other'', ''Other diseases'')]
       diagnosis contrib;
     Some contrib
   }"

subsection \<open>The layout: risk tier (lines 89 to 97) and baseline (line 100)\<close>

definition tier_low :: string where
  \<comment> \<open>the label of the low tier: U+4F4E U+98CE U+9669\<close>
  "tier_low = [CHR 0xE4, CHR 0xBD, CHR 0x8E, CHR 0xE9, CHR 0xA3, CHR 0x8E, CHR 0xE9, CHR 0x99, CHR 0xA9]"

definition tier_moderate :: string where
  \<comment> \<open>the label of the moderate tier: U+4E2D U+7B49 U+98CE U+9669\<close>
  "tier_moderate = [CHR 0xE4, CHR 0xB8, CHR 0xAD, CHR 0xE7, CHR 0xAD, CHR 0x89,
     CHR 0xE9, CHR 0xA3, CHR 0x8E, CHR 0xE9, CHR 0x99, CHR 0xA9]"

definition tier_high :: string where
  \<comment> \<open>the label of the high tier: U+9AD8 U+98CE U+9669\<close>
  "tier_high = [CHR 0xE9, CHR 0xAB, CHR 0x98, CHR 0xE9, CHR 0xA3, CHR 0x8E, CHR 0xE9, CHR 0x99, CHR 0xA9]"

definition advice_low :: string where
  \<comment> \<open>routine monitoring; the usual education and observation before the procedure\<close>
  "advice_low =
    [CHR 0xE4, CHR 0xBE, CHR 0x8B, CHR 0xE8, CHR 0xA1, CHR 0x8C, CHR 0xE7, CHR 0x9B, CHR 0x91,
     CHR 0xE6, CHR 0xB5, CHR 0x8B, CHR 0xEF, CHR 0xBC, CHR 0x9B, CHR 0xE5, CHR 0xB8, CHR 0xB8,
     CHR 0xE8, CHR 0xA7, CHR 0x84, CHR 0xE6, CHR 0x9C, CHR 0xAF, CHR 0xE5, CHR 0x89, CHR 0x8D,
     CHR 0xE5, CHR 0xAE, CHR 0xA3, CHR 0xE6, CHR 0x95, CHR 0x99, CHR 0xE4, CHR 0xB8, CHR 0x8E,
     CHR 0xE8, CHR 0xA7, CHR 0x82, CHR 0xE5, CHR 0xAF, CHR 0x9F, CHR 0xE3, CHR 0x80, CHR 0x82]"

definition advice_moderate :: string where
  \<comment> \<open>closer glucose monitoring around the procedure; fluids and carbohydrate; check
      how the laxative is tolerated\<close>
  "advice_moderate =
    [CHR 0xE5, CHR 0x8A, CHR 0xA0, CHR 0xE5, CHR 0xBC, CHR 0xBA, CHR 0xE6, CHR 0x9C, CHR 0xAF,
     CHR 0xE5, CHR 0x89, CHR 0x8D] @ ''/'' @
    [CHR 0xE6, CHR 0x9C, CHR 0xAF, CHR 0xE5, CHR 0x90, CHR 0x8E, CHR 0xE8, CHR 0xA1, CHR 0x80,
     CHR 0xE7, CHR 0xB3, CHR 0x96, CHR 0xE7, CHR 0x9B, CHR 0x91, CHR 0xE6, CHR 0xB5, CHR 0x8B,
     CHR 0xEF, CHR 0xBC, CHR 0x9B, CHR 0xE7, CHR 0xA1, CHR 0xAE, CHR 0xE4, CHR 0xBF, CHR 0x9D,
     CHR 0xE8, CHR 0xA1, CHR 0xA5, CHR 0xE6, CHR 0xB6, CHR 0xB2, CHR 0xE4, CHR 0xB8, CHR 0x8E,
     CHR 0xE7, CHR 0xA2, CHR 0xB3, CHR 0xE6, CHR 0xB0, CHR 0xB4, CHR 0xE5, CHR 0x8C, CHR 0x96,
     CHR 0xE5, CHR 0x90, CHR 0x88, CHR 0xE7, CHR 0x89, CHR 0xA9, CHR 0xE6, CHR 0x94, CHR 0xAF,
     CHR 0xE6, CHR 0x8C, CHR 0x81, CHR 0xEF, CHR 0xBC, CHR 0x9B, CHR 0xE8, CHR 0xAF, CHR 0x84,
     CHR 0xE4, CHR 0xBC, CHR 0xB0, CHR 0xE5, CHR 0xAF, CHR 0xBC, CHR 0xE6, CHR 0xB3, CHR 0xBB,
     CHR 0xE8, CHR 0x80, CHR 0x90, CHR 0xE5, CHR 0x8F, CHR 0x97, CHR 0xE3, CHR 0x80, CHR 0x82]"

definition advice_high :: string where
  \<comment> \<open>optimise glucose beforehand and individualise the bowel preparation; consider a
      shorter fast; close monitoring and communication\<close>
  "advice_high =
    [CHR 0xE6, CHR 0x9C, CHR 0xAF, CHR 0xE5, CHR 0x89, CHR 0x8D, CHR 0xE4, CHR 0xBC, CHR 0x98,
     CHR 0xE5, CHR 0x8C, CHR 0x96, CHR 0xE8, CHR 0xA1, CHR 0x80, CHR 0xE7, CHR 0xB3, CHR 0x96,
     CHR 0xE5, CHR 0xB9, CHR 0xB6, CHR 0xE4, CHR 0xB8, CHR 0xAA, CHR 0xE4, CHR 0xBD, CHR 0x93,
     CHR 0xE5, CHR 0x8C, CHR 0x96, CHR 0xE8, CHR 0x82, CHR 0xA0, CHR 0xE9, CHR 0x81, CHR 0x93,
     CHR 0xE5, CHR 0x87, CHR 0x86, CHR 0xE5, CHR 0xA4, CHR 0x87, CHR 0xEF, CHR 0xBC, CHR 0x9B,
     CHR 0xE8, CHR 0x80, CHR 0x83, CHR 0xE8, CHR 0x99, CHR 0x91, CHR 0xE7, CHR 0xBC, CHR 0xA9,
     CHR 0xE7, CHR 0x9F, CHR 0xAD, CHR 0xE7, CHR 0xA6, CHR 0x81, CHR 0xE9, CHR 0xA3, CHR 0x9F,
     CHR 0xEF, CHR 0xBC, CHR 0x9B, CHR 0xE5, CHR 0xAF, CHR 0x86, CHR 0xE5, CHR 0x88, CHR 0x87,
     CHR 0xE5, CHR 0x8A, CHR 0xA8, CHR 0xE6, CHR 0x80, CHR 0x81, CHR 0xE7, CHR 0x9B, CHR 0x91,
     CHR 0xE6, CHR 0xB5, CHR 0x8B, CHR 0xE4, CHR 0xB8, CHR 0x8E, CHR 0xE6, CHR 0xB2, CHR 0x9F,
     CHR 0xE9, CHR 0x80, CHR 0x9A, CHR 0xE3, CHR 0x80, CHR 0x82]"

definition risk_tier :: "real \<Rightarrow> string \<times> string" where
  \<comment> \<open>the branch on \<open>p\<close>: the pair \<open>(tier, advice)\<close> it assigns\<close>
  "risk_tier p =
    (if p < 0.35 then (tier_low, advice_low)
     else if p < 0.65 then (tier_moderate, advice_moderate)
     else (tier_high, advice_high))"

definition make_base ::
  "real \<Rightarrow> real \<Rightarrow> real \<Rightarrow> string \<Rightarrow> string \<Rightarrow> string \<Rightarrow> (string \<rightharpoonup> pyval)" where
  \<comment> \<open>the dictionary \<open>base\<close> that the layout builds from the six baseline widgets\<close>
  "make_base base_glu base_bun base_hb base_dbp base_lax base_nrs =
    [''glucose'' \<mapsto> Num base_glu, ''bun'' \<mapsto> Num base_bun, ''hb'' \<mapsto> Num base_hb,
     ''dbp'' \<mapsto> Str base_dbp, ''lax'' \<mapsto> Str base_lax, ''nrs'' \<mapsto> Str base_nrs]"

definition prediction ::
  "string \<Rightarrow> string \<Rightarrow> real \<Rightarrow> real \<Rightarrow> real \<Rightarrow> string \<Rightarrow> string
    \<Rightarrow> (real \<times> string \<times> string) option" where
  \<comment> \<open>lines 87 to 97: the logit, the probability \<open>p\<close>, and the tier and advice shown for it\<close>
  "prediction diagnosis dbp_cat glucose bun hb lax nrs = do {
     z \<leftarrow> logit_from_inputs diagnosis dbp_cat glucose bun hb lax nrs;
     let p = logistic z;
     Some (p, risk_tier p)
   }"

subsection \<open>The specification's tables and formulas\<close>

text \<open>
  These definitions follow the words of the specification, not the code: the offset that
  each option of a select box adds to the logit, with \<open>0\<close> for the reference level,
  and the contribution the specification gives a dummy level.
\<close>

definition dbp_offsets :: "(string \<times> real) list" where
  "dbp_offsets = zip dbp_options [0, 1.928, 0.287, -0.168]"

definition diagnosis_offsets :: "(string \<times> real) list" where
  "diagnosis_offsets = zip diagnosis_options [0, -2.342, -3.267, -1.344, -1.534]"

definition level_delta :: "real \<Rightarrow> bool \<Rightarrow> bool \<Rightarrow> real" where
  \<comment> \<open>weight times (indicator of the current selection minus indicator of the baseline's)\<close>
  "level_delta w selected base_selected =
     w * ((if selected then 1 else 0) - (if base_selected then 1 else 0))"

definition sum_f64 :: "real list \<Rightarrow> real" where
  \<comment> \<open>the sum of a list of doubles, accumulated from 0 in the order of the list\<close>
  "sum_f64 xs = foldl fadd 0 xs"

subsection \<open>Devices of the rounding analysis\<close>

text \<open>
  \<open>cadd\<close> is one conditional \<open>z += c\<close>. \<open>delta\<close> bounds the rounding error of a
  result of magnitude at most 128, and \<open>near a x e B\<close> says that the double \<open>a\<close> is
  within \<open>e\<close> of the number \<open>x\<close>, itself of magnitude at most \<open>B\<close>.
  \<open>logit_unrounded\<close> and \<open>contributions_unrounded\<close> are the logit and the sum of the
  contributions on the coefficients of \<open>COEF_f64\<close> when no sum or product is rounded.
\<close>

definition cadd :: "real \<Rightarrow> bool \<Rightarrow> real \<Rightarrow> real" where
  "cadd z c w = (if c then fadd z w else z)"

definition delta :: real where
  "delta = 1 / 2 ^ 46"

definition near :: "real \<Rightarrow> real \<Rightarrow> real \<Rightarrow> real \<Rightarrow> bool" where
  "near a x e B \<longleftrightarrow> \<bar>a - x\<bar> \<le> e \<and> \<bar>x\<bar> \<le> B \<and> e \<le> 1"

definition logit_unrounded ::
  "string \<Rightarrow> string \<Rightarrow> real \<Rightarrow> real \<Rightarrow> real \<Rightarrow> string \<Rightarrow> string \<Rightarrow> real" where
  "logit_unrounded diagnosis dbp_cat glucose bun hb lax nrs =
     fl (-6.18) + fl 0.074 * glucose + fl 0.101 * bun + fl 0.151 * hb
     + (if dbp_cat = ''90'' @ en_dash @ ''100 mmHg'' then fl 1.928 else 0)
     + (if dbp_cat = ''101'' @ en_dash @ ''110 mmHg'' then fl 0.287 else 0)
     + (if dbp_cat = ''> 110 mmHg'' then fl (-0.168) else 0)
     + (if str_in ''Yes'' lax then fl 2.826 else 0)
     + (if str_in ''Yes'' nrs then fl 5.46 else 0)
     + (if diagnosis = ''Colonic lesion'' then fl (-2.342) else 0)
     + (if diagnosis = ''Gastric neoplasm'' then fl (-3.267) else 0)
     + (if diagnosis = ''Esophageal lesion'' then fl (-1.344) else 0)
     + (if diagnosis = ''Other diseases'' then fl (-1.534) else 0)"

definition contributions_unrounded ::
  "string \<Rightarrow> string \<Rightarrow> real \<Rightarrow> real \<Rightarrow> real \<Rightarrow> string \<Rightarrow> string \<Rightarrow> real \<Rightarrow> real \<Rightarrow> real \<Rightarrow> real" where
  "contributions_unrounded diagnosis dbp_cat glucose bun hb lax nrs bg bb bh =
     0 + fl 0.074 * (glucose - bg) + fl 0.101 * (bun - bb) + fl 0.151 * (hb - bh)
     + fl 1.928 * (if dbp_cat = ''90'' @ en_dash @ ''100 mmHg'' then 1 else 0)
     + fl 0.287 * (if dbp_cat = ''101'' @ en_dash @ ''110 mmHg'' then 1 else 0)
     + fl (-0.168) * (if dbp_cat = ''> 110 mmHg'' then 1 else 0)
     + fl 2.826 * (if str_in ''Yes'' lax then 1 else 0)
     + fl 5.46 * (if str_in ''Yes'' nrs then 1 else 0)
     + fl (-2.342) * (if diagnosis = ''Colonic lesion'' then 1 else 0)
     + fl (-3.267) * (if diagnosis = ''Gastric neoplasm'' then 1 else 0)
     + fl (-1.344) * (if diagnosis = ''Esophageal lesion'' then 1 else 0)
     + fl (-1.534) * (if diagnosis = ''Other diseases'' then 1 else 0)"


section \<open>Closed forms of the two helpers\<close>

text \<open>
  Every key the code looks up is in the table, so neither helper raises; what they return
  is written out once here, and the claims below are read off these closed forms.
\<close>

lemma COEF_lookup:
  "COEF ''intercept'' = Some (-6.18)"
  "COEF ''dx_colon'' = Some (-2.342)"
  "COEF ''dx_gastric'' = Some (-3.267)"
  "COEF ''dx_esophageal'' = Some (-1.344)"
  "COEF ''dx_other'' = Some (-1.534)"
  "COEF ''lax_yes'' = Some 2.826"
  "COEF ''dbp_cat2'' = Some 1.928"
  "COEF ''dbp_cat3'' = Some 0.287"
  "COEF ''dbp_cat4'' = Some (-0.168)"
  "COEF ''bun'' = Some 0.101"
  "COEF ''glucose'' = Some 0.074"
  "COEF ''hb'' = Some 0.151"
  "COEF ''nrs_yes'' = Some 5.46"
  by (simp_all add: COEF_def)

lemma logit_closed_form:
  "logit_from_inputs diagnosis dbp_cat glucose bun hb lax nrs =
     Some (-6.18 + 0.074 * glucose + 0.101 * bun + 0.151 * hb
       + (if dbp_cat = ''90'' @ en_dash @ ''100 mmHg'' then 1.928
          else if dbp_cat = ''101'' @ en_dash @ ''110 mmHg'' then 0.287
          else if dbp_cat = ''> 110 mmHg'' then -0.168 else 0)
       + (if str_in ''Yes'' lax then 2.826 else 0)
       + (if str_in ''Yes'' nrs then 5.46 else 0)
       + (if diagnosis = ''Colonic lesion'' then -2.342
          else if diagnosis = ''Gastric neoplasm'' then -3.267
          else if diagnosis = ''Esophageal lesion'' then -1.344
          else if diagnosis = ''Other diseases'' then -1.534 else 0))"
  unfolding logit_from_inputs_def add_coef_def Let_def
  by (simp add: COEF_lookup)

lemma num_at_make_base:
  "num_at (make_base bg bb bh bd bl bn) ''glucose'' = Some bg"
  "num_at (make_base bg bb bh bd bl bn) ''bun'' = Some bb"
  "num_at (make_base bg bb bh bd bl bn) ''hb'' = Some bh"
  by (simp_all add: num_at_def make_base_def)

lemma contributions_closed_form:
  "contributions diagnosis dbp_cat glucose bun hb lax nrs (make_base bg bb bh bd bl bn) =
     Some
      [(''Serum_glucose (mmol/L)'', 0.074 * (glucose - bg)),
       (''Blood_urea_nitrogen (mmol/L)'', 0.101 * (bun - bb)),
       (''Hemoglobin (g/L)'', 0.151 * (hb - bh)),
       (''DBP: '' @ ''90'' @ en_dash @ ''100 mmHg'',
          1.928 * (if dbp_cat = ''90'' @ en_dash @ ''100 mmHg'' then 1 else 0)),
       (''DBP: '' @ ''101'' @ en_dash @ ''110 mmHg'',
          0.287 * (if dbp_cat = ''101'' @ en_dash @ ''110 mmHg'' then 1 else 0)),
       (''DBP: > 110 mmHg'', -0.168 * (if dbp_cat = ''> 110 mmHg'' then 1 else 0)),
       (''Laxative use (Yes)'', 2.826 * (if str_in ''Yes'' lax then 1 else 0)),
       (''NRS-2002 '' @ ge_sign @ ''3 (Yes)'', 5.46 * (if str_in ''Yes'' nrs then 1 else 0)),
       (''Diagnosis: Colonic lesion'', -2.342 * (if diagnosis = ''Colonic lesion'' then 1 else 0)),
       (''Diagnosis: Gastric neoplasm'', -3.267 * (if diagnosis = ''Gastric neoplasm'' then 1 else 0)),
       (''Diagnosis: Esophageal lesion'', -1.344 * (if diagnosis = ''Esophageal lesion'' then 1 else 0)),
       (''Diagnosis: Other diseases'', -1.534 * (if diagnosis = ''Other diseases'' then 1 else 0))]"
  unfolding contributions_def Let_def
  by (simp add: COEF_lookup num_at_make_base en_dash_def ge_sign_def)

section \<open>The sigmoid\<close>

lemma logistic_denominator_pos: "0 < 1 + exp (- x :: real)"
  by (simp add: add_pos_pos)

lemma logistic_less_one: "logistic x < 1"
  by (simp add: logistic_def add_pos_pos)

lemma exp_14_lower: "(10000::real) < exp 14"
proof -
  have "(2::real) \<le> exp 1" using exp_ge_add_one_self [of "1::real"] by simp
  hence "(2::real) ^ 14 \<le> exp 1 ^ 14" by (intro power_mono) simp_all
  moreover have "exp (1::real) ^ 14 = exp 14" using exp_of_nat_mult [of 14 "1::real"] by simp
  ultimately show ?thesis by simp
qed

lemma logistic_example_bounds: "0.9999 < logistic 14.4704"
proof -
  define e where "e = exp (- 14.4704 :: real)"
  have "exp (14::real) < exp 14.4704" by simp
  with exp_14_lower have big: "(10000::real) < exp 14.4704" by linarith
  have "e = 1 / exp 14.4704" unfolding e_def by (simp add: exp_minus field_simps)
  also have "\<dots> < 1 / 10000" using big by (simp add: field_simps)
  finally have small: "e < 1 / 10000" .
  have pos: "0 < 1 + e" unfolding e_def by (rule logistic_denominator_pos)
  have "0.9999 * (1 + e) < 1" using small by simp
  hence "0.9999 < 1 / (1 + e)" using pos by (simp add: pos_less_divide_eq)
  thus ?thesis by (simp add: logistic_def e_def)
qed

lemma logistic_zero: "logistic 0 = 1 / 2"
  by (simp add: logistic_def)

lemma logistic_minus_one: "logistic (- 1) < 0.35"
proof -
  have "(2::real) \<le> exp 1" using exp_ge_add_one_self [of "1::real"] by simp
  hence "1 < 0.35 * (1 + exp (1::real))" by simp
  hence "1 / (1 + exp (1::real)) < 0.35" using logistic_denominator_pos [of "- 1"]
    by (simp add: pos_divide_less_eq)
  thus ?thesis by (simp add: logistic_def)
qed

lemma logistic_one: "0.65 \<le> logistic 1"
proof -
  have "(2::real) \<le> exp 1" using exp_ge_add_one_self [of "1::real"] by simp
  hence "exp (- 1 :: real) \<le> 1 / 2" by (simp add: exp_minus field_simps)
  hence "0.65 * (1 + exp (- 1 :: real)) \<le> 1" by simp
  hence "0.65 \<le> 1 / (1 + exp (- 1 :: real))" using logistic_denominator_pos [of 1]
    by (simp add: pos_le_divide_eq)
  thus ?thesis by (simp add: logistic_def)
qed

section \<open>The options of the select boxes\<close>

lemma dbp_offsets_cases:
  assumes "map_of dbp_offsets dbp_cat = Some d"
  shows "(dbp_cat = ''< 90 mmHg (reference)'' \<and> d = 0)
       \<or> (dbp_cat = ''90'' @ en_dash @ ''100 mmHg'' \<and> d = 1.928)
       \<or> (dbp_cat = ''101'' @ en_dash @ ''110 mmHg'' \<and> d = 0.287)
       \<or> (dbp_cat = ''> 110 mmHg'' \<and> d = -0.168)"
  using assms by (auto simp: dbp_offsets_def dbp_options_def split: if_splits)

lemma diagnosis_offsets_cases:
  assumes "map_of diagnosis_offsets diagnosis = Some x"
  shows "(diagnosis = ''Gallbladder/pancreatic disease (reference)'' \<and> x = 0)
       \<or> (diagnosis = ''Colonic lesion'' \<and> x = -2.342)
       \<or> (diagnosis = ''Gastric neoplasm'' \<and> x = -3.267)
       \<or> (diagnosis = ''Esophageal lesion'' \<and> x = -1.344)
       \<or> (diagnosis = ''Other diseases'' \<and> x = -1.534)"
  using assms by (auto simp: diagnosis_offsets_def diagnosis_options_def split: if_splits)

lemma str_in_yes_no: "str_in ''Yes'' yes_option" "\<not> str_in ''Yes'' no_option"
  by (simp_all add: yes_option_def no_option_def)

lemma yes_no_cases:
  assumes "s \<in> set yes_no_options"
  shows "str_in ''Yes'' s \<longleftrightarrow> s = yes_option"
  using assms by (auto simp: yes_no_options_def str_in_yes_no)

lemma dbp_offset_eq:
  assumes "map_of dbp_offsets dbp_cat = Some d"
  shows "(if dbp_cat = ''90'' @ en_dash @ ''100 mmHg'' then 1.928
          else if dbp_cat = ''101'' @ en_dash @ ''110 mmHg'' then 0.287
          else if dbp_cat = ''> 110 mmHg'' then -0.168 else 0) = d"
  using dbp_offsets_cases [OF assms] by (auto simp: en_dash_def)

lemma diagnosis_offset_eq:
  assumes "map_of diagnosis_offsets diagnosis = Some x"
  shows "(if diagnosis = ''Colonic lesion'' then -2.342
          else if diagnosis = ''Gastric neoplasm'' then -3.267
          else if diagnosis = ''Esophageal lesion'' then -1.344
          else if diagnosis = ''Other diseases'' then -1.534 else 0) = x"
  using diagnosis_offsets_cases [OF assms] by auto

lemma tier_labels_distinct:
  "tier_low \<noteq> tier_moderate" "tier_moderate \<noteq> tier_high" "tier_low \<noteq> tier_high"
  by (simp_all add: tier_low_def tier_moderate_def tier_high_def)

section \<open>Rounding to the nearest double\<close>

lemma rne_error: "\<bar>of_int (rne t) - t\<bar> \<le> 1 / 2"
  unfolding rne_def by (auto simp: abs_if) linarith+

lemma rne_of_int [simp]: "rne (of_int k) = k"
  by (simp add: rne_def)

lemma rne_nearest:
  assumes "\<bar>t - of_int k\<bar> < 1 / 2"
  shows "rne t = k"
proof -
  have "\<bar>of_int (rne t) - (of_int k :: real)\<bar> < 1" using rne_error [of t] assms by linarith
  hence "\<bar>rne t - k\<bar> < 1" by (metis of_int_diff of_int_abs of_int_less_1_iff)
  thus ?thesis by linarith
qed

lemma rne_tie_even:
  assumes "\<bar>t - of_int k\<bar> = 1 / 2" "even k"
  shows "rne t = k"
proof (cases "of_int k \<le> t")
  case True
  hence t: "t = of_int k + 1 / 2" using assms(1) by linarith
  hence "\<lfloor>t\<rfloor> = k" by linarith
  thus ?thesis using t assms(2) by (simp add: rne_def)
next
  case False
  hence t: "t = of_int (k - 1) + 1 / 2" using assms(1) by simp
  hence f: "\<lfloor>t\<rfloor> = k - 1" by linarith
  have "odd (k - 1)" using assms(2) by simp
  thus ?thesis using t f by (simp add: rne_def)
qed

lemma rne_mono: "s \<le> t \<Longrightarrow> rne s \<le> rne t"
proof -
  assume st: "s \<le> t"
  hence fl: "\<lfloor>s\<rfloor> \<le> \<lfloor>t\<rfloor>" by (rule floor_mono)
  have bs: "\<lfloor>s\<rfloor> \<le> rne s" "rne s \<le> \<lfloor>s\<rfloor> + 1" and bt: "\<lfloor>t\<rfloor> \<le> rne t" "rne t \<le> \<lfloor>t\<rfloor> + 1"
    by (auto simp: rne_def)
  show ?thesis
  proof (cases "\<lfloor>s\<rfloor> = \<lfloor>t\<rfloor>")
    case True
    thus ?thesis using st by (auto simp: rne_def)
  next
    case False
    hence "\<lfloor>s\<rfloor> + 1 \<le> \<lfloor>t\<rfloor>" using fl by linarith
    thus ?thesis using bs bt by linarith
  qed
qed

lemma rne_minus: "rne (- t) = - rne t"
proof (cases "t = of_int \<lfloor>t\<rfloor>")
  case True
  then obtain k where "t = of_int k" ..
  thus ?thesis by (simp flip: of_int_minus)
next
  case False
  hence f: "\<lfloor>- t\<rfloor> = - \<lfloor>t\<rfloor> - 1" by (simp add: floor_minus ceiling_altdef)
  have lt: "of_int \<lfloor>t\<rfloor> < t" using False by (metis less_eq_real_def of_int_floor_le)
  show ?thesis unfolding rne_def f using lt by (auto simp: algebra_simps) 
qed

lemma two_powi_pos [simp]: "0 < (2::real) powi k"
  by simp

lemma two_powr_powi: "(2::real) powr real_of_int k = 2 powi k"
  by (rule powr_real_of_int') simp_all

lemma floor_log2_bounds:
  assumes "x \<noteq> 0"
  shows "2 powi \<lfloor>log 2 \<bar>x\<bar>\<rfloor> \<le> \<bar>x\<bar>" "\<bar>x\<bar> < 2 powi (\<lfloor>log 2 \<bar>x\<bar>\<rfloor> + 1)"
proof -
  have pos: "0 < \<bar>x\<bar>" using assms by simp
  have "(2::real) powr \<lfloor>log 2 \<bar>x\<bar>\<rfloor> \<le> \<bar>x\<bar> \<and> \<bar>x\<bar> < 2 powr (\<lfloor>log 2 \<bar>x\<bar>\<rfloor> + 1)"
    using floor_log_eq_powr_iff [OF pos, of 2 "\<lfloor>log 2 \<bar>x\<bar>\<rfloor>"] by simp
  thus "2 powi \<lfloor>log 2 \<bar>x\<bar>\<rfloor> \<le> \<bar>x\<bar>" "\<bar>x\<bar> < 2 powi (\<lfloor>log 2 \<bar>x\<bar>\<rfloor> + 1)"
    using two_powr_powi [of "\<lfloor>log 2 \<bar>x\<bar>\<rfloor>"] two_powr_powi [of "\<lfloor>log 2 \<bar>x\<bar>\<rfloor> + 1"] by simp_all
qed

lemma floor_log2_eqI:
  assumes "2 powi k \<le> \<bar>x\<bar>" "\<bar>x\<bar> < 2 powi (k + 1)"
  shows "\<lfloor>log 2 \<bar>x\<bar>\<rfloor> = k"
proof -
  have pos: "0 < \<bar>x\<bar>" using assms(1) two_powi_pos [of k] by linarith
  have "(2::real) powr k \<le> \<bar>x\<bar> \<and> \<bar>x\<bar> < 2 powr (k + 1)"
    using assms two_powr_powi [of k] two_powr_powi [of "k + 1"] by simp
  thus ?thesis using floor_log_eq_powr_iff [OF pos, of 2 k] by simp
qed

lemma binade_upper: "x \<noteq> 0 \<Longrightarrow> \<bar>x\<bar> < 2 powi (binade x + 1)"
proof -
  assume x: "x \<noteq> 0"
  have "(2::real) powi (\<lfloor>log 2 \<bar>x\<bar>\<rfloor> + 1) \<le> 2 powi (binade x + 1)"
    by (rule power_int_increasing) (simp_all add: binade_def)
  thus ?thesis using floor_log2_bounds(2) [OF x] by linarith
qed

lemma binade_lower: "x \<noteq> 0 \<Longrightarrow> - 1022 < binade x \<Longrightarrow> 2 powi binade x \<le> \<bar>x\<bar>"
  using floor_log2_bounds(1) [of x] by (simp add: binade_def max_def split: if_splits)

lemma binade_eqI:
  assumes "2 powi k \<le> \<bar>x\<bar>" "\<bar>x\<bar> < 2 powi (k + 1)" "- 1022 \<le> k"
  shows "binade x = k"
  using floor_log2_eqI [OF assms(1,2)] assms(3) by (simp add: binade_def)

lemma binade_mono:
  assumes "x \<noteq> 0" "\<bar>x\<bar> \<le> \<bar>y\<bar>"
  shows "binade x \<le> binade y"
proof -
  have "log 2 \<bar>x\<bar> \<le> log 2 \<bar>y\<bar>" using assms by simp
  hence "\<lfloor>log 2 \<bar>x\<bar>\<rfloor> \<le> \<lfloor>log 2 \<bar>y\<bar>\<rfloor>" by (rule floor_mono)
  thus ?thesis by (simp add: binade_def)
qed

lemma binade_minus [simp]: "binade (- x) = binade x"
  by (simp add: binade_def)

lemma ulp_pos [simp]: "0 < ulp x"
  by (simp add: ulp_def)

lemma ulp_nonneg [simp]: "0 \<le> ulp x"
  by (simp add: ulp_def)

lemma ulp_minus [simp]: "ulp (- x) = ulp x"
  by (simp add: ulp_def)

lemma fl_zero [simp]: "fl 0 = 0"
  by (simp add: fl_def)

lemma fl_minus: "fl (- x) = - fl x"
  by (simp add: fl_def rne_minus)

lemma fl_error: "\<bar>fl x - x\<bar> \<le> ulp x / 2"
proof (cases "x = 0")
  case True
  thus ?thesis by simp
next
  case False
  have "\<bar>of_int (rne (x / ulp x)) - x / ulp x\<bar> \<le> 1 / 2" by (rule rne_error)
  hence "\<bar>of_int (rne (x / ulp x)) - x / ulp x\<bar> * ulp x \<le> 1 / 2 * ulp x"
    by (rule mult_right_mono) simp
  moreover have "\<bar>of_int (rne (x / ulp x)) - x / ulp x\<bar> * ulp x =
      \<bar>of_int (rne (x / ulp x)) * ulp x - x\<bar>"
  proof -
    have nz: "ulp x \<noteq> 0" using ulp_pos [of x] by linarith
    have "\<bar>of_int (rne (x / ulp x)) - x / ulp x\<bar> * ulp x =
        \<bar>(of_int (rne (x / ulp x)) - x / ulp x) * ulp x\<bar>"
      by (simp add: abs_mult)
    also have "(of_int (rne (x / ulp x)) - x / ulp x) * ulp x =
        of_int (rne (x / ulp x)) * ulp x - x"
      using nz by (simp add: left_diff_distrib)
    finally show ?thesis .
  qed
  ultimately show ?thesis using False by (simp add: fl_def)
qed

lemma two_powi_add: "(2::real) powi (a + b) = 2 powi a * 2 powi b"
  by (rule power_int_add) simp

lemma binade_ge: "- 1022 \<le> binade x"
  by (simp add: binade_def)

lemma two_powi_binade:
  "(2::real) powi (binade x + 1) = 2 ^ 53 * ulp x" "(2::real) powi binade x = 2 ^ 52 * ulp x"
proof -
  have "(2::real) powi (binade x + 1) = 2 powi ((binade x - 52) + 53)"
    by (rule arg_cong [where f = "\<lambda>k. 2 powi k"]) simp
  also have "\<dots> = 2 powi (binade x - 52) * 2 powi 53" by (rule two_powi_add)
  also have "\<dots> = 2 ^ 53 * ulp x" by (simp add: ulp_def)
  finally show "(2::real) powi (binade x + 1) = 2 ^ 53 * ulp x" .
  have "(2::real) powi binade x = 2 powi ((binade x - 52) + 52)"
    by (rule arg_cong [where f = "\<lambda>k. 2 powi k"]) simp
  also have "\<dots> = 2 powi (binade x - 52) * 2 powi 52" by (rule two_powi_add)
  also have "\<dots> = 2 ^ 52 * ulp x" by (simp add: ulp_def)
  finally show "(2::real) powi binade x = 2 ^ 52 * ulp x" .
qed

lemma fl_eqI:
  assumes lo: "2 powi (e + 52) \<le> \<bar>x\<bar>" and hi: "\<bar>x\<bar> < 2 powi (e + 53)" and e: "- 1074 \<le> e"
    and near: "\<bar>x / 2 powi e - of_int m\<bar> < 1 / 2
        \<or> (\<bar>x / 2 powi e - of_int m\<bar> = 1 / 2 \<and> even m)"
  shows "fl x = of_int m * 2 powi e"
proof -
  have "binade x = e + 52"
    using lo hi e by (intro binade_eqI) (simp_all add: add.commute add.left_commute)
  hence u: "ulp x = 2 powi e" by (simp add: ulp_def)
  have "0 < \<bar>x\<bar>" using lo two_powi_pos [of "e + 52"] by linarith
  hence nz: "x \<noteq> 0" by simp
  have "rne (x / 2 powi e) = m" using near by (auto intro: rne_nearest rne_tie_even)
  thus ?thesis using nz u by (simp add: fl_def)
qed

lemma fl_eq_dyadic:
  assumes lo: "2 ^ 52 \<le> \<bar>x\<bar> * 2 ^ n" and hi: "\<bar>x\<bar> * 2 ^ n < 2 ^ 53" and n: "n \<le> 1074"
    and near: "\<bar>x * 2 ^ n - of_int m\<bar> < 1 / 2 \<or> (\<bar>x * 2 ^ n - of_int m\<bar> = 1 / 2 \<and> even m)"
  shows "fl x = of_int m / 2 ^ n"
proof -
  have p: "(2::real) powi (- int n) = 1 / 2 ^ n" by (simp add: power_int_minus_divide)
  have p52: "(2::real) powi (- int n + 52) = 2 ^ 52 / 2 ^ n"
    unfolding two_powi_add p by simp
  have p53: "(2::real) powi (- int n + 53) = 2 ^ 53 / 2 ^ n"
    unfolding two_powi_add p by simp
  have "fl x = of_int m * 2 powi (- int n)"
  proof (rule fl_eqI)
    show "2 powi (- int n + 52) \<le> \<bar>x\<bar>" unfolding p52 using lo by (simp add: field_simps)
    show "\<bar>x\<bar> < 2 powi (- int n + 53)" unfolding p53 using hi by (simp add: field_simps)
    show "- 1074 \<le> - int n" using n by simp
    show "\<bar>x / 2 powi (- int n) - of_int m\<bar> < 1 / 2
        \<or> (\<bar>x / 2 powi (- int n) - of_int m\<bar> = 1 / 2 \<and> even m)"
      unfolding p using near by simp
  qed
  thus ?thesis by (simp add: p)
qed

lemma fl_range_pos:
  assumes "0 < x"
  shows "0 \<le> fl x" "fl x \<le> 2 powi (binade x + 1)" "- 1022 < binade x \<Longrightarrow> 2 powi binade x \<le> fl x"
proof -
  let ?t = "x / ulp x"
  have nz: "x \<noteq> 0" using assms by simp
  have f: "fl x = of_int (rne ?t) * ulp x" using nz by (simp add: fl_def)
  have "0 \<le> ?t" using assms by simp
  hence "rne 0 \<le> rne ?t" by (rule rne_mono)
  hence "0 \<le> rne ?t" by (simp add: rne_def)
  thus "0 \<le> fl x" unfolding f by simp
  have "x < 2 powi (binade x + 1)" using binade_upper [OF nz] assms by simp
  also have "(2::real) powi (binade x + 1) = 2 ^ 53 * ulp x"
    by (rule two_powi_binade)
  finally have "?t \<le> of_int (2 ^ 53)" by (simp add: field_simps)
  hence "rne ?t \<le> rne (of_int (2 ^ 53))" by (rule rne_mono)
  hence "real_of_int (rne ?t) \<le> 2 ^ 53" unfolding rne_of_int by (metis of_int_le_iff of_int_numeral of_int_power)
  hence "of_int (rne ?t) * ulp x \<le> 2 ^ 53 * ulp x" by (rule mult_right_mono) simp
  thus "fl x \<le> 2 powi (binade x + 1)"
    unfolding f two_powi_binade .
  assume "- 1022 < binade x"
  hence "2 powi binade x \<le> x" using binade_lower [OF nz] assms by simp
  moreover have "(2::real) powi binade x = 2 ^ 52 * ulp x"
    by (rule two_powi_binade)
  ultimately have "of_int (2 ^ 52) \<le> ?t" by (simp add: field_simps)
  hence "rne (of_int (2 ^ 52)) \<le> rne ?t" by (rule rne_mono)
  hence "2 ^ 52 \<le> real_of_int (rne ?t)" unfolding rne_of_int by (metis of_int_le_iff of_int_numeral of_int_power)
  hence "2 ^ 52 * ulp x \<le> of_int (rne ?t) * ulp x" by (rule mult_right_mono) simp
  thus "2 powi binade x \<le> fl x"
    unfolding f two_powi_binade .
qed

lemma fl_mono_pos:
  assumes "0 < x" "x \<le> y"
  shows "fl x \<le> fl y"
proof -
  have y: "0 < y" using assms by linarith
  have b: "binade x \<le> binade y" using assms by (intro binade_mono) simp_all
  show ?thesis
  proof (cases "binade x = binade y")
    case True
    hence u: "ulp x = ulp y" by (simp add: ulp_def)
    have "x / ulp y \<le> y / ulp y" using assms(2) by (simp add: divide_right_mono)
    hence "rne (x / ulp y) \<le> rne (y / ulp y)" by (rule rne_mono)
    hence "real_of_int (rne (x / ulp y)) * ulp y \<le> real_of_int (rne (y / ulp y)) * ulp y"
      by (intro mult_right_mono) simp_all
    thus ?thesis using assms(1) y u by (simp add: fl_def)
  next
    case False
    hence lt: "binade x + 1 \<le> binade y" "- 1022 < binade y"
      using b binade_ge [of x] by linarith+
    have "fl x \<le> 2 powi (binade x + 1)" by (rule fl_range_pos(2) [OF assms(1)])
    also have "\<dots> \<le> 2 powi binade y" using lt(1) by (intro power_int_increasing) simp_all
    also have "\<dots> \<le> fl y" by (rule fl_range_pos(3) [OF y lt(2)])
    finally show ?thesis .
  qed
qed

lemma fl_mono:
  assumes "x \<le> y"
  shows "fl x \<le> fl y"
proof -
  consider "0 < x" | "x \<le> 0" "0 < y" | "x < 0" "y = 0" | "x = 0" "y = 0" | "y < 0"
    using assms by linarith
  thus ?thesis
  proof cases
    case 1
    thus ?thesis using assms by (rule fl_mono_pos)
  next
    case 2
    have "fl x \<le> 0"
    proof (cases "x = 0")
      case False
      hence "0 \<le> fl (- x)" using 2(1) by (intro fl_range_pos(1)) simp
      thus ?thesis by (simp add: fl_minus)
    qed simp
    moreover have "0 \<le> fl y" using 2(2) by (rule fl_range_pos(1))
    ultimately show ?thesis by linarith
  next
    case 3
    hence "0 \<le> fl (- x)" by (intro fl_range_pos(1)) simp
    thus ?thesis using 3 by (simp add: fl_minus)
  next
    case 4
    thus ?thesis by simp
  next
    case 5
    hence "fl (- y) \<le> fl (- x)" using assms by (intro fl_mono_pos) simp_all
    thus ?thesis by (simp add: fl_minus)
  qed
qed

lemma fl_error_pow2:
  assumes "\<bar>x\<bar> \<le> 2 ^ k"
  shows "\<bar>fl x - x\<bar> \<le> 2 ^ k / 2 ^ 53"
proof (cases "x = 0")
  case True
  thus ?thesis by simp
next
  case False
  have "binade x \<le> int k"
  proof (rule ccontr)
    assume "\<not> binade x \<le> int k"
    hence b: "int k + 1 \<le> binade x" by simp
    have "(2::real) ^ k < 2 powi (int k + 1)" by (simp add: two_powi_add)
    also have "\<dots> \<le> 2 powi binade x" using b by (intro power_int_increasing) simp_all
    also have "\<dots> \<le> \<bar>x\<bar>" using b by (intro binade_lower [OF False]) simp
    finally show False using assms by simp
  qed
  hence "(2::real) powi (binade x - 52) \<le> 2 powi (int k - 52)"
    by (intro power_int_increasing) simp_all
  also have "(2::real) powi (int k - 52) = 2 powi (int k + (- 52))" by simp
  also have "\<dots> = 2 ^ k * 2 powi (- 52)" unfolding two_powi_add by simp
  finally have "ulp x \<le> 2 ^ k / 2 ^ 52" by (simp add: ulp_def power_int_minus_divide)
  thus ?thesis using fl_error [of x] by simp
qed

section \<open>The helpers in double precision\<close>

lemma COEF_f64_lookup:
  "COEF_f64 ''intercept'' = Some (fl (-6.18))"
  "COEF_f64 ''dx_colon'' = Some (fl (-2.342))"
  "COEF_f64 ''dx_gastric'' = Some (fl (-3.267))"
  "COEF_f64 ''dx_esophageal'' = Some (fl (-1.344))"
  "COEF_f64 ''dx_other'' = Some (fl (-1.534))"
  "COEF_f64 ''lax_yes'' = Some (fl 2.826)"
  "COEF_f64 ''dbp_cat2'' = Some (fl 1.928)"
  "COEF_f64 ''dbp_cat3'' = Some (fl 0.287)"
  "COEF_f64 ''dbp_cat4'' = Some (fl (-0.168))"
  "COEF_f64 ''bun'' = Some (fl 0.101)"
  "COEF_f64 ''glucose'' = Some (fl 0.074)"
  "COEF_f64 ''hb'' = Some (fl 0.151)"
  "COEF_f64 ''nrs_yes'' = Some (fl 5.46)"
  by (simp_all only: COEF_f64_def COEF_lookup option.map)

lemma dbp_stage_f64:
  "(if dbp_cat = ''90'' @ en_dash @ ''100 mmHg'' then add_coef_f64 z ''dbp_cat2''
    else if dbp_cat = ''101'' @ en_dash @ ''110 mmHg'' then add_coef_f64 z ''dbp_cat3''
    else if dbp_cat = ''> 110 mmHg'' then add_coef_f64 z ''dbp_cat4''
    else Some z)
   = Some (cadd (cadd (cadd z (dbp_cat = ''90'' @ en_dash @ ''100 mmHg'') (fl 1.928))
       (dbp_cat = ''101'' @ en_dash @ ''110 mmHg'') (fl 0.287))
       (dbp_cat = ''> 110 mmHg'') (fl (-0.168)))"
  by (simp add: add_coef_f64_def COEF_f64_lookup cadd_def en_dash_def)

lemma flag_stage_f64:
  "(if str_in ''Yes'' lax then add_coef_f64 z ''lax_yes'' else Some z)
    = Some (cadd z (str_in ''Yes'' lax) (fl 2.826))"
  "(if str_in ''Yes'' nrs then add_coef_f64 z ''nrs_yes'' else Some z)
    = Some (cadd z (str_in ''Yes'' nrs) (fl 5.46))"
  by (simp_all add: add_coef_f64_def COEF_f64_lookup cadd_def)

lemma diagnosis_stage_f64:
  "(if diagnosis = ''Colonic lesion'' then add_coef_f64 z ''dx_colon''
    else if diagnosis = ''Gastric neoplasm'' then add_coef_f64 z ''dx_gastric''
    else if diagnosis = ''Esophageal lesion'' then add_coef_f64 z ''dx_esophageal''
    else if diagnosis = ''Other diseases'' then add_coef_f64 z ''dx_other''
    else Some z)
   = Some (cadd (cadd (cadd (cadd z (diagnosis = ''Colonic lesion'') (fl (-2.342)))
       (diagnosis = ''Gastric neoplasm'') (fl (-3.267)))
       (diagnosis = ''Esophageal lesion'') (fl (-1.344)))
       (diagnosis = ''Other diseases'') (fl (-1.534)))"
  by (simp add: add_coef_f64_def COEF_f64_lookup cadd_def)

lemma logit_f64_closed_form:
  "logit_from_inputs_f64 diagnosis dbp_cat glucose bun hb lax nrs =
     Some (cadd (cadd (cadd (cadd
       (cadd (cadd
       (cadd (cadd (cadd
          (fadd (fadd (fadd (fl (-6.18)) (fmul (fl 0.074) glucose))
             (fmul (fl 0.101) bun)) (fmul (fl 0.151) hb))
          (dbp_cat = ''90'' @ en_dash @ ''100 mmHg'') (fl 1.928))
          (dbp_cat = ''101'' @ en_dash @ ''110 mmHg'') (fl 0.287))
          (dbp_cat = ''> 110 mmHg'') (fl (-0.168)))
       (str_in ''Yes'' lax) (fl 2.826))
       (str_in ''Yes'' nrs) (fl 5.46))
       (diagnosis = ''Colonic lesion'') (fl (-2.342)))
       (diagnosis = ''Gastric neoplasm'') (fl (-3.267)))
       (diagnosis = ''Esophageal lesion'') (fl (-1.344)))
       (diagnosis = ''Other diseases'') (fl (-1.534)))"
  unfolding logit_from_inputs_f64_def COEF_f64_lookup Let_def bind.bind_lunit
    dbp_stage_f64 flag_stage_f64 diagnosis_stage_f64
  by (rule refl)

lemma contributions_f64_closed_form:
  "contributions_f64 diagnosis dbp_cat glucose bun hb lax nrs (make_base bg bb bh bd bl bn) =
     Some
      [(''Serum_glucose (mmol/L)'', fmul (fl 0.074) (fsub glucose bg)),
       (''Blood_urea_nitrogen (mmol/L)'', fmul (fl 0.101) (fsub bun bb)),
       (''Hemoglobin (g/L)'', fmul (fl 0.151) (fsub hb bh)),
       (''DBP: '' @ ''90'' @ en_dash @ ''100 mmHg'',
          fmul (fl 1.928) (if dbp_cat = ''90'' @ en_dash @ ''100 mmHg'' then 1 else 0)),
       (''DBP: '' @ ''101'' @ en_dash @ ''110 mmHg'',
          fmul (fl 0.287) (if dbp_cat = ''101'' @ en_dash @ ''110 mmHg'' then 1 else 0)),
       (''DBP: > 110 mmHg'', fmul (fl (-0.168)) (if dbp_cat = ''> 110 mmHg'' then 1 else 0)),
       (''Laxative use (Yes)'', fmul (fl 2.826) (if str_in ''Yes'' lax then 1 else 0)),
       (''NRS-2002 '' @ ge_sign @ ''3 (Yes)'', fmul (fl 5.46) (if str_in ''Yes'' nrs then 1 else 0)),
       (''Diagnosis: Colonic lesion'',
          fmul (fl (-2.342)) (if diagnosis = ''Colonic lesion'' then 1 else 0)),
       (''Diagnosis: Gastric neoplasm'',
          fmul (fl (-3.267)) (if diagnosis = ''Gastric neoplasm'' then 1 else 0)),
       (''Diagnosis: Esophageal lesion'',
          fmul (fl (-1.344)) (if diagnosis = ''Esophageal lesion'' then 1 else 0)),
       (''Diagnosis: Other diseases'',
          fmul (fl (-1.534)) (if diagnosis = ''Other diseases'' then 1 else 0))]"
  unfolding contributions_f64_def Let_def COEF_f64_lookup num_at_make_base bind.bind_lunit
    level_loop_f64.simps
  by (simp add: en_dash_def ge_sign_def del: fl_zero)

text \<open>
  The roundings that the concrete inputs of the claims go through, each checked with
  \<open>fl_eq_dyadic\<close>: the argument scaled by a power of two lies between \<open>2 ^ 52\<close> and
  \<open>2 ^ 53\<close> and within one half of the stated integer (an even one at one half).
\<close>

lemma fl_values:
  "fl (1 / 9007199254740992) = real_of_int 4503599627370496 / 2 ^ 105"
  "fl (37 / 500) = real_of_int 5332261958806667 / 2 ^ 56"
  "fl (45035996273705 / 562949953421312) = real_of_int 5764607523034240 / 2 ^ 56"
  "fl (101 / 1000) = real_of_int 7277816997830722 / 2 ^ 56"
  "fl (4202515269876626970227959443279 / 40564819207303340847894502572032) = real_of_int 7465166742329336 / 2 ^ 56"
  "fl (933145842791167 / 9007199254740992) = real_of_int 7465166742329336 / 2 ^ 56"
  "fl (151 / 1000) = real_of_int 5440348349863559 / 2 ^ 55"
  "fl (21 / 125) = real_of_int 6052837899185947 / 2 ^ 55"
  "fl (6052837899185947 / 36028797018963968) = real_of_int 6052837899185947 / 2 ^ 55"
  "fl (287 / 1000) = real_of_int 5170132372221329 / 2 ^ 54"
  "fl (3638908498915361 / 9007199254740992) = real_of_int 7277816997830722 / 2 ^ 54"
  "fl (16810061079506502548649878966449 / 40564819207303340847894502572032) = real_of_int 7465166742329333 / 2 ^ 54"
  "fl (1 / 2) = real_of_int 4503599627370496 / 2 ^ 53"
  "fl (142876698178329 / 281474976710656) = real_of_int 4572054341706528 / 2 ^ 53"
  "fl (37325833711646669 / 72057594037927936) = real_of_int 4665729213955834 / 2 ^ 53"
  "fl (10916725496746083 / 18014398509481984) = real_of_int 5458362748373042 / 2 ^ 53"
  "fl (1865841325619595 / 2251799813685248) = real_of_int 7463365302478380 / 2 ^ 53"
  "fl (233230165702451 / 281474976710656) = real_of_int 7463365302478432 / 2 ^ 53"
  "fl (1) = real_of_int 4503599627370496 / 2 ^ 52"
  "fl (9007199254740993 / 9007199254740992) = real_of_int 4503599627370496 / 2 ^ 52"
  "fl (18194542494576805 / 18014398509481984) = real_of_int 4548635623644201 / 2 ^ 52"
  "fl (168 / 125) = real_of_int 6052837899185947 / 2 ^ 52"
  "fl (3072355665792153 / 2251799813685248) = real_of_int 6144711331584306 / 2 ^ 52"
  "fl (788129934789837 / 562949953421312) = real_of_int 6305039478318696 / 2 ^ 52"
  "fl (767 / 500) = real_of_int 6908521828386341 / 2 ^ 52"
  "fl (241 / 125) = real_of_int 8682940081570316 / 2 ^ 52"
  "fl (2) = real_of_int 4503599627370496 / 2 ^ 51"
  "fl (79983929382100005 / 36028797018963968) = real_of_int 4998995586381250 / 2 ^ 51"
  "fl (1171 / 500) = real_of_int 5273715163650851 / 2 ^ 51"
  "fl (1413 / 500) = real_of_int 6363586273474511 / 2 ^ 51"
  "fl (6363586273474511 / 2251799813685248) = real_of_int 6363586273474511 / 2 ^ 51"
  "fl (7356629991309705 / 2251799813685248) = real_of_int 7356629991309705 / 2 ^ 51"
  "fl (3267 / 1000) = real_of_int 7356629991309705 / 2 ^ 51"
  "fl (4458563631096791 / 1125899906842624) = real_of_int 8917127262193582 / 2 ^ 51"
  "fl (4) = real_of_int 4503599627370496 / 2 ^ 50"
  "fl (4528819785283771 / 1125899906842624) = real_of_int 4528819785283771 / 2 ^ 50"
  "fl (18194542494576805 / 4503599627370496) = real_of_int 4548635623644201 / 2 ^ 50"
  "fl (2305617829232325 / 562949953421312) = real_of_int 4611235658464650 / 2 ^ 50"
  "fl (9222471316929301 / 2251799813685248) = real_of_int 4611235658464650 / 2 ^ 50"
  "fl (150975071028266619 / 36028797018963968) = real_of_int 4717970969633332 / 2 ^ 50"
  "fl (81605225247953385 / 18014398509481984) = real_of_int 5100326577997087 / 2 ^ 50"
  "fl (20950745466527547 / 4503599627370496) = real_of_int 5237686366631887 / 2 ^ 50"
  "fl (23236772637380811 / 4503599627370496) = real_of_int 5809193159345203 / 2 ^ 50"
  "fl (6147413491360727 / 1125899906842624) = real_of_int 6147413491360727 / 2 ^ 50"
  "fl (273 / 50) = real_of_int 6147413491360727 / 2 ^ 50"
  "fl (28 / 5) = real_of_int 6305039478318694 / 2 ^ 50"
  "fl (25499381090171747 / 4503599627370496) = real_of_int 6374845272542937 / 2 ^ 50"
  "fl (103863816046269323 / 18014398509481984) = real_of_int 6491488502891833 / 2 ^ 50"
  "fl (309 / 50) = real_of_int 6958061424287416 / 2 ^ 50"
  "fl (370376033354949605 / 36028797018963968) = real_of_int 5787125521171088 / 2 ^ 49"
  "fl (11763402226691735 / 1125899906842624) = real_of_int 5881701113345868 / 2 ^ 49"
  "fl (29512088358158863 / 2251799813685248) = real_of_int 7378022089539716 / 2 ^ 49"
  "fl (16292222011975505 / 1125899906842624) = real_of_int 8146111005987752 / 2 ^ 49"
  "fl (136008708746588975 / 9007199254740992) = real_of_int 8500544296661811 / 2 ^ 49"
  "fl (34450285349570615 / 2251799813685248) = real_of_int 8612571337392654 / 2 ^ 49"
  "fl (20903457670440159 / 1125899906842624) = real_of_int 5225864417610040 / 2 ^ 48"
  "fl (353622642741131335 / 18014398509481984) = real_of_int 5525353792830177 / 2 ^ 48"
  "fl (30) = real_of_int 8444249301319680 / 2 ^ 48"
  "fl (1082629321622848241 / 36028797018963968) = real_of_int 8458041575178502 / 2 ^ 48"
  "fl (16961119146630709 / 562949953421312) = real_of_int 8480559573315354 / 2 ^ 48"
  "fl (136008708746588975 / 4503599627370496) = real_of_int 8500544296661811 / 2 ^ 48"
  "fl (17046124589597327 / 562949953421312) = real_of_int 8523062294798664 / 2 ^ 48"
  "fl (36092973313653995 / 1125899906842624) = real_of_int 4511621664206749 / 2 ^ 47"
  "fl (36262984199587235 / 1125899906842624) = real_of_int 4532873024948404 / 2 ^ 47"
  "fl (78549532900782495 / 2251799813685248) = real_of_int 4909345806298906 / 2 ^ 47"
  "fl (78889554672648975 / 2251799813685248) = real_of_int 4930597167040561 / 2 ^ 47"
  "fl (45422179941751975 / 1125899906842624) = real_of_int 5677772492718997 / 2 ^ 47"
  "fl (45592190827685215 / 1125899906842624) = real_of_int 5699023853460652 / 2 ^ 47"
  by ((rule fl_eq_dyadic; simp)+)

lemma fl_one: "fl 1 = 1" and fl_two: "fl 2 = 2" and fl_half: "fl (1 / 2) = 1 / 2"
  by (simp_all add: fl_values)

lemma fl_nonneg: "0 \<le> x \<Longrightarrow> 0 \<le> fl x"
  using fl_mono [of 0 x] by simp

lemma exp_40_lower: "(2::real) ^ 53 < exp 40"
proof -
  have "(2::real) ^ 53 < (13 / 2) ^ 20" by (simp add: power_divide)
  also have "(13 / 2 :: real) ^ 20 \<le> ((9 / 8) ^ 16) ^ 20"
    by (intro power_mono) (simp_all add: power_divide)
  also have "((9 / 8 :: real) ^ 16) ^ 20 = (1 + 40 / real 320) ^ 320"
    by (simp add: power_mult [symmetric])
  also have "\<dots> \<le> exp 40"
    by (rule exp_ge_one_plus_x_over_n_power_n) simp_all
  finally show ?thesis .
qed

lemma logistic_f64_value:
  "logistic_f64 z =
     Some (if 2 ^ 1024 \<le> fl (exp (- z)) then 0 else fl (1 / fl (1 + fl (exp (- z)))))"
proof -
  have "0 \<le> fl (exp (- z))" by (rule fl_nonneg) simp
  hence "fl 1 \<le> fl (1 + fl (exp (- z)))" by (intro fl_mono) simp
  hence "fl (1 + fl (exp (- z))) \<noteq> 0" unfolding fl_one by linarith
  thus ?thesis by (simp add: logistic_f64_def np_exp_def fdiv_def fadd_def)
qed

lemma logistic_f64_mono:
  assumes "z1 \<le> z2"
  shows "(if 2 ^ 1024 \<le> fl (exp (- z1)) then 0 else fl (1 / fl (1 + fl (exp (- z1)))))
       \<le> (if 2 ^ 1024 \<le> fl (exp (- z2)) then 0 else fl (1 / fl (1 + fl (exp (- z2)))))"
proof -
  let ?e1 = "fl (exp (- z1))" and ?e2 = "fl (exp (- z2))"
  have e: "?e2 \<le> ?e1" using assms by (intro fl_mono) simp
  have pos: "0 \<le> ?e2" by (rule fl_nonneg) simp
  have d: "fl (1 + ?e2) \<le> fl (1 + ?e1)" using e by (intro fl_mono) simp
  have d2: "1 \<le> fl (1 + ?e2)" using fl_mono [of 1 "1 + ?e2"] pos by (simp add: fl_one)
  have q: "1 / fl (1 + ?e1) \<le> 1 / fl (1 + ?e2)"
    using d d2 by (intro divide_left_mono) (simp_all add: mult_pos_pos)
  have p2: "0 \<le> fl (1 / fl (1 + ?e2))" using d2 by (intro fl_nonneg) simp
  show ?thesis
  proof (cases "2 ^ 1024 \<le> ?e1")
    case True
    thus ?thesis using p2 by simp
  next
    case False
    hence "\<not> 2 ^ 1024 \<le> ?e2" using e by linarith
    thus ?thesis using False q by (simp add: fl_mono)
  qed
qed

lemma logistic_f64_saturated:
  assumes "40 \<le> z"
  shows "logistic_f64 z = Some 1"
proof -
  let ?e = "fl (exp (- z))"
  have "exp (- z) \<le> exp (- 40 :: real)" using assms by simp
  also have "\<dots> = 1 / exp 40" by (simp add: exp_minus inverse_eq_divide)
  also have "\<dots> \<le> 1 / 2 ^ 53"
    using exp_40_lower by (intro divide_left_mono) simp_all
  finally have "?e \<le> fl (1 / 2 ^ 53)" by (rule fl_mono)
  hence up: "?e \<le> 1 / 2 ^ 53" by (simp add: fl_values)
  have lo: "0 \<le> ?e" by (rule fl_nonneg) simp
  have "fl (1 + ?e) \<le> fl (1 + 1 / 2 ^ 53)" using up by (intro fl_mono) simp
  hence "fl (1 + ?e) \<le> 1" by (simp add: fl_values)
  moreover have "fl 1 \<le> fl (1 + ?e)" using lo by (intro fl_mono) simp
  ultimately have one: "fl (1 + ?e) = 1" unfolding fl_one by linarith
  have "\<not> 2 ^ 1024 \<le> ?e" using up by simp
  thus ?thesis unfolding logistic_f64_value by (simp add: one fl_one)
qed

section \<open>Accumulated rounding error\<close>

lemma delta_bounds: "0 < delta" "delta \<le> 1 / 1000"
  by (simp_all add: delta_def)

lemma fl_error_128: "\<bar>x\<bar> \<le> 128 \<Longrightarrow> \<bar>fl x - x\<bar> \<le> delta"
  using fl_error_pow2 [of x 7] by (simp add: delta_def)

lemma fl_error_256: "\<bar>x\<bar> \<le> 256 \<Longrightarrow> \<bar>fl x - x\<bar> \<le> 2 * delta"
  using fl_error_pow2 [of x 8] by (simp add: delta_def)

lemma near_exact: "\<bar>c\<bar> \<le> K \<Longrightarrow> near c c 0 K"
  by (simp add: near_def)

lemma near_weaken: "near a x e B \<Longrightarrow> e \<le> e' \<Longrightarrow> e' \<le> 1 \<Longrightarrow> B \<le> B' \<Longrightarrow> near a x e' B'"
  by (simp add: near_def)

lemma near_fl:
  assumes "\<bar>x\<bar> \<le> B" "B \<le> 128"
  shows "near (fl x) x delta B"
  using fl_error_128 [of x] assms delta_bounds by (simp add: near_def)

lemma near_fmul_exact:
  assumes "\<bar>c\<bar> \<le> K" "\<bar>v\<bar> \<le> V" "K * V \<le> 128"
  shows "near (fmul c v) (c * v) delta (K * V)"
proof -
  have "\<bar>c * v\<bar> \<le> K * V" unfolding abs_mult using assms(1,2) by (intro mult_mono) simp_all
  thus ?thesis unfolding fmul_def using assms(3) by (intro near_fl)
qed

lemma near_fadd:
  assumes "near a x e1 X" "near b y e2 Y" "X + Y + 2 \<le> 128" "e1 + e2 + delta \<le> 1"
  shows "near (fadd a b) (x + y) (e1 + e2 + delta) (X + Y)"
proof -
  have ax: "\<bar>a - x\<bar> \<le> e1" "\<bar>x\<bar> \<le> X" "e1 \<le> 1" and bY: "\<bar>b - y\<bar> \<le> e2" "\<bar>y\<bar> \<le> Y" "e2 \<le> 1"
    using assms(1,2) by (simp_all add: near_def)
  have "\<bar>a + b\<bar> \<le> 128" using ax bY assms(3) by linarith
  hence "\<bar>fl (a + b) - (a + b)\<bar> \<le> delta" by (rule fl_error_128)
  hence "\<bar>fl (a + b) - (x + y)\<bar> \<le> e1 + e2 + delta" using ax(1) bY(1) by linarith
  moreover have "\<bar>x + y\<bar> \<le> X + Y" using ax(2) bY(2) by linarith
  ultimately show ?thesis using assms(4) by (simp add: near_def fadd_def)
qed

lemma near_cadd:
  assumes "near a x e X" "\<bar>w\<bar> \<le> W" "X + W + 2 \<le> 128" "e + delta \<le> 1"
  shows "near (cadd a c w) (x + (if c then w else 0)) (e + delta) (X + W)"
proof (cases c)
  case True
  have "near (fadd a w) (x + w) (e + 0 + delta) (X + W)"
    using assms by (intro near_fadd near_exact) simp_all
  thus ?thesis using True by (simp add: cadd_def)
next
  case False
  have "0 \<le> W" using assms(2) by linarith
  thus ?thesis using False assms(1,4) delta_bounds(1) by (simp add: cadd_def near_def)
qed

lemma coef_bounds:
  "\<bar>fl (-6.18)\<bar> \<le> 7" "\<bar>fl 0.074\<bar> \<le> 1 / 4" "\<bar>fl 0.101\<bar> \<le> 1 / 4" "\<bar>fl 0.151\<bar> \<le> 1 / 4"
  "\<bar>fl 1.928\<bar> \<le> 2" "\<bar>fl 0.287\<bar> \<le> 1" "\<bar>fl (-0.168)\<bar> \<le> 1"
  "\<bar>fl 2.826\<bar> \<le> 3" "\<bar>fl 5.46\<bar> \<le> 6"
  "\<bar>fl (-2.342)\<bar> \<le> 3" "\<bar>fl (-3.267)\<bar> \<le> 4" "\<bar>fl (-1.344)\<bar> \<le> 2" "\<bar>fl (-1.534)\<bar> \<le> 2"
  by (simp_all add: fl_minus fl_values)

lemma logit_f64_near:
  assumes g: "\<bar>glucose\<bar> \<le> 30" and b: "\<bar>bun\<bar> \<le> 40" and h: "\<bar>hb\<bar> \<le> 200"
  shows "\<exists>z. logit_from_inputs_f64 diagnosis dbp_cat glucose bun hb lax nrs = Some z
    \<and> near z (logit_unrounded diagnosis dbp_cat glucose bun hb lax nrs) (15 * delta) 100"
proof -
  note d = delta_bounds
  have s: "near (fadd (fadd (fadd (fl (-6.18)) (fmul (fl 0.074) glucose))
             (fmul (fl 0.101) bun)) (fmul (fl 0.151) hb))
      (fl (-6.18) + fl 0.074 * glucose + fl 0.101 * bun + fl 0.151 * hb)
      (0 + delta + delta + delta + delta + delta + delta) (7 + 1 / 4 * 30 + 1 / 4 * 40 + 1 / 4 * 200)"
    using d by (intro near_fadd near_fmul_exact near_exact coef_bounds g b h) simp_all
  have "near (cadd (cadd (cadd (cadd
       (cadd (cadd
       (cadd (cadd (cadd
          (fadd (fadd (fadd (fl (-6.18)) (fmul (fl 0.074) glucose))
             (fmul (fl 0.101) bun)) (fmul (fl 0.151) hb))
          (dbp_cat = ''90'' @ en_dash @ ''100 mmHg'') (fl 1.928))
          (dbp_cat = ''101'' @ en_dash @ ''110 mmHg'') (fl 0.287))
          (dbp_cat = ''> 110 mmHg'') (fl (-0.168)))
       (str_in ''Yes'' lax) (fl 2.826))
       (str_in ''Yes'' nrs) (fl 5.46))
       (diagnosis = ''Colonic lesion'') (fl (-2.342)))
       (diagnosis = ''Gastric neoplasm'') (fl (-3.267)))
       (diagnosis = ''Esophageal lesion'') (fl (-1.344)))
       (diagnosis = ''Other diseases'') (fl (-1.534)))
     (logit_unrounded diagnosis dbp_cat glucose bun hb lax nrs)
     (0 + delta + delta + delta + delta + delta + delta
        + delta + delta + delta + delta + delta + delta + delta + delta + delta)
     (7 + 1 / 4 * 30 + 1 / 4 * 40 + 1 / 4 * 200 + 2 + 1 + 1 + 3 + 6 + 3 + 4 + 2 + 2)"
    unfolding logit_unrounded_def
    using d by (intro near_cadd s coef_bounds) simp_all
  hence "near (the (logit_from_inputs_f64 diagnosis dbp_cat glucose bun hb lax nrs))
     (logit_unrounded diagnosis dbp_cat glucose bun hb lax nrs) (15 * delta) 100"
    unfolding logit_f64_closed_form option.sel by (rule near_weaken) (use d in simp_all)
  thus ?thesis unfolding logit_f64_closed_form by simp
qed

lemma near_fmul_fsub:
  assumes c: "\<bar>c\<bar> \<le> 1 / 4" and uv: "\<bar>u - v\<bar> \<le> D" and D: "D \<le> 256"
  shows "near (fmul c (fsub u v)) (c * (u - v)) (2 * delta) (D / 4)"
proof -
  define a where "a = fl (u - v)"
  have a: "\<bar>a - (u - v)\<bar> \<le> 2 * delta" unfolding a_def using uv D by (intro fl_error_256) linarith
  hence a1: "\<bar>a\<bar> \<le> 257" using uv D delta_bounds by linarith
  have "\<bar>c * a\<bar> \<le> 1 / 4 * 257" unfolding abs_mult using c a1 by (intro mult_mono) simp_all
  hence r: "\<bar>fl (c * a) - c * a\<bar> \<le> delta" by (intro fl_error_128) linarith
  have "\<bar>c * a - c * (u - v)\<bar> = \<bar>c\<bar> * \<bar>a - (u - v)\<bar>"
    by (simp add: abs_mult [symmetric] right_diff_distrib)
  also have "\<dots> \<le> 1 / 4 * (2 * delta)" using c a by (intro mult_mono) simp_all
  finally have e: "\<bar>fl (c * a) - c * (u - v)\<bar> \<le> 2 * delta" using r delta_bounds by linarith
  have "\<bar>c * (u - v)\<bar> \<le> 1 / 4 * D" unfolding abs_mult using c uv by (intro mult_mono) simp_all
  thus ?thesis using e delta_bounds by (simp add: near_def fmul_def fsub_def a_def)
qed

lemma near_add:
  assumes "near a x e1 X" "near b y e2 Y" "e1 + e2 \<le> 1"
  shows "near (a + b) (x + y) (e1 + e2) (X + Y)"
  using assms unfolding near_def by linarith

lemma indicator_bound: "\<bar>if c then 1 else 0 :: real\<bar> \<le> 1"
  by simp

lemma unrounded_identity:
  "contributions_unrounded diagnosis dbp_cat glucose bun hb lax nrs bg bb bh =
     logit_unrounded diagnosis dbp_cat glucose bun hb lax nrs
     - logit_unrounded ''Gallbladder/pancreatic disease (reference)'' ''< 90 mmHg (reference)''
         bg bb bh no_option no_option"
  unfolding contributions_unrounded_def logit_unrounded_def
  by (simp add: str_in_yes_no en_dash_def algebra_simps)

lemma contributions_f64_near:
  assumes g: "\<bar>glucose - bg\<bar> \<le> 28" and b: "\<bar>bun - bb\<bar> \<le> 40" and h: "\<bar>hb - bh\<bar> \<le> 140"
  shows "\<exists>contrib.
      contributions_f64 diagnosis dbp_cat glucose bun hb lax nrs (make_base bg bb bh bd bl bn)
        = Some contrib
    \<and> near (sum_f64 (map snd contrib))
        (contributions_unrounded diagnosis dbp_cat glucose bun hb lax nrs bg bb bh) (27 * delta) 100
    \<and> near (sum_list (map snd contrib))
        (contributions_unrounded diagnosis dbp_cat glucose bun hb lax nrs bg bb bh) (15 * delta) 100"
proof -
  note d = delta_bounds
  let ?e1 = "fmul (fl 0.074) (fsub glucose bg)"
  let ?e2 = "fmul (fl 0.101) (fsub bun bb)"
  let ?e3 = "fmul (fl 0.151) (fsub hb bh)"
  let ?e4 = "fmul (fl 1.928) (if dbp_cat = ''90'' @ en_dash @ ''100 mmHg'' then 1 else 0)"
  let ?e5 = "fmul (fl 0.287) (if dbp_cat = ''101'' @ en_dash @ ''110 mmHg'' then 1 else 0)"
  let ?e6 = "fmul (fl (-0.168)) (if dbp_cat = ''> 110 mmHg'' then 1 else 0)"
  let ?e7 = "fmul (fl 2.826) (if str_in ''Yes'' lax then 1 else 0)"
  let ?e8 = "fmul (fl 5.46) (if str_in ''Yes'' nrs then 1 else 0)"
  let ?e9 = "fmul (fl (-2.342)) (if diagnosis = ''Colonic lesion'' then 1 else 0)"
  let ?e10 = "fmul (fl (-3.267)) (if diagnosis = ''Gastric neoplasm'' then 1 else 0)"
  let ?e11 = "fmul (fl (-1.344)) (if diagnosis = ''Esophageal lesion'' then 1 else 0)"
  let ?e12 = "fmul (fl (-1.534)) (if diagnosis = ''Other diseases'' then 1 else 0)"
  let ?S = "contributions_unrounded diagnosis dbp_cat glucose bun hb lax nrs bg bb bh"
  have n1: "near ?e1 (fl 0.074 * (glucose - bg)) (2 * delta) (28 / 4)"
    by (intro near_fmul_fsub coef_bounds g) simp
  have n2: "near ?e2 (fl 0.101 * (bun - bb)) (2 * delta) (40 / 4)"
    by (intro near_fmul_fsub coef_bounds b) simp
  have n3: "near ?e3 (fl 0.151 * (hb - bh)) (2 * delta) (140 / 4)"
    by (intro near_fmul_fsub coef_bounds h) simp
  have n4: "near ?e4 (fl 1.928 * (if dbp_cat = ''90'' @ en_dash @ ''100 mmHg'' then 1 else 0)) delta (2 * 1)"
    by (intro near_fmul_exact coef_bounds indicator_bound) simp
  have n5: "near ?e5 (fl 0.287 * (if dbp_cat = ''101'' @ en_dash @ ''110 mmHg'' then 1 else 0)) delta (1 * 1)"
    by (intro near_fmul_exact coef_bounds indicator_bound) simp
  have n6: "near ?e6 (fl (-0.168) * (if dbp_cat = ''> 110 mmHg'' then 1 else 0)) delta (1 * 1)"
    by (intro near_fmul_exact coef_bounds indicator_bound) simp
  have n7: "near ?e7 (fl 2.826 * (if str_in ''Yes'' lax then 1 else 0)) delta (3 * 1)"
    by (intro near_fmul_exact coef_bounds indicator_bound) simp
  have n8: "near ?e8 (fl 5.46 * (if str_in ''Yes'' nrs then 1 else 0)) delta (6 * 1)"
    by (intro near_fmul_exact coef_bounds indicator_bound) simp
  have n9: "near ?e9 (fl (-2.342) * (if diagnosis = ''Colonic lesion'' then 1 else 0)) delta (3 * 1)"
    by (intro near_fmul_exact coef_bounds indicator_bound) simp
  have n10: "near ?e10 (fl (-3.267) * (if diagnosis = ''Gastric neoplasm'' then 1 else 0)) delta (4 * 1)"
    by (intro near_fmul_exact coef_bounds indicator_bound) simp
  have n11: "near ?e11 (fl (-1.344) * (if diagnosis = ''Esophageal lesion'' then 1 else 0)) delta (2 * 1)"
    by (intro near_fmul_exact coef_bounds indicator_bound) simp
  have n12: "near ?e12 (fl (-1.534) * (if diagnosis = ''Other diseases'' then 1 else 0)) delta (2 * 1)"
    by (intro near_fmul_exact coef_bounds indicator_bound) simp
  note ns = n1 n2 n3 n4 n5 n6 n7 n8 n9 n10 n11 n12
  have z: "near 0 0 0 0" by (simp add: near_def)
  have "near (fadd (fadd (fadd (fadd (fadd (fadd (fadd (fadd (fadd (fadd (fadd (fadd 0
          ?e1) ?e2) ?e3) ?e4) ?e5) ?e6) ?e7) ?e8) ?e9) ?e10) ?e11) ?e12) ?S
      (0 + 2 * delta + delta + 2 * delta + delta + 2 * delta + delta + delta + delta
         + delta + delta + delta + delta + delta + delta + delta + delta + delta + delta
         + delta + delta + delta + delta + delta + delta)
      (0 + 28 / 4 + 40 / 4 + 140 / 4 + 2 * 1 + 1 * 1 + 1 * 1 + 3 * 1 + 6 * 1 + 3 * 1 + 4 * 1
         + 2 * 1 + 2 * 1)"
    unfolding contributions_unrounded_def
    by (intro near_fadd ns z) (use d in simp_all)
  hence A: "near (sum_f64 [?e1, ?e2, ?e3, ?e4, ?e5, ?e6, ?e7, ?e8, ?e9, ?e10, ?e11, ?e12]) ?S
      (27 * delta) 100"
    unfolding sum_f64_def foldl.simps by (rule near_weaken) (use d in simp_all)
  have "near (0 + ?e1 + ?e2 + ?e3 + ?e4 + ?e5 + ?e6 + ?e7 + ?e8 + ?e9 + ?e10 + ?e11 + ?e12) ?S
      (0 + 2 * delta + 2 * delta + 2 * delta + delta + delta + delta + delta + delta + delta
         + delta + delta + delta)
      (0 + 28 / 4 + 40 / 4 + 140 / 4 + 2 * 1 + 1 * 1 + 1 * 1 + 3 * 1 + 6 * 1 + 3 * 1 + 4 * 1
         + 2 * 1 + 2 * 1)"
    unfolding contributions_unrounded_def
    by (intro near_add ns z) (use d in simp_all)
  hence C: "near (0 + ?e1 + ?e2 + ?e3 + ?e4 + ?e5 + ?e6 + ?e7 + ?e8 + ?e9 + ?e10 + ?e11 + ?e12) ?S
      (15 * delta) 100"
    by (rule near_weaken) (use d in simp_all)
  have eq: "sum_list [?e1, ?e2, ?e3, ?e4, ?e5, ?e6, ?e7, ?e8, ?e9, ?e10, ?e11, ?e12]
      = 0 + ?e1 + ?e2 + ?e3 + ?e4 + ?e5 + ?e6 + ?e7 + ?e8 + ?e9 + ?e10 + ?e11 + ?e12"
    by (simp only: sum_list.Cons sum_list.Nil add.assoc add_0_left add_0_right)
  have B: "near (sum_list [?e1, ?e2, ?e3, ?e4, ?e5, ?e6, ?e7, ?e8, ?e9, ?e10, ?e11, ?e12])
      ?S (15 * delta) 100"
    unfolding eq by (rule C)
  show ?thesis
    unfolding contributions_f64_closed_form
    by (intro exI conjI, rule refl) (simp_all only: list.map snd_conv A B)
qed

section \<open>The claims\<close>

text \<open>
  C1. For every option of the diagnosis and DBP select boxes, every glucose, BUN and
  haemoglobin value and every choice of the two yes/no boxes, \<open>logit_from_inputs\<close>
  returns the intercept plus the three weighted continuous values, plus the offset of the
  DBP band (0 for the reference band), plus the laxative weight when the laxative box says
  yes, plus the NRS weight when the NRS box says yes, plus the offset of the diagnosis
  (0 for the reference diagnosis); the numbers are those of \<open>COEF\<close>.
\<close>

theorem logit_formula:
  assumes "map_of diagnosis_offsets diagnosis = Some dx_offset"
    and "map_of dbp_offsets dbp_cat = Some dbp_offset"
    and "lax \<in> set yes_no_options"
    and "nrs \<in> set yes_no_options"
  shows "logit_from_inputs diagnosis dbp_cat glucose bun hb lax nrs =
     Some (-6.18 + 0.074 * glucose + 0.101 * bun + 0.151 * hb
       + dbp_offset
       + (if lax = yes_option then 2.826 else 0)
       + (if nrs = yes_option then 5.46 else 0)
       + dx_offset)"
  unfolding logit_closed_form dbp_offset_eq [OF assms(2)] diagnosis_offset_eq [OF assms(1)]
    yes_no_cases [OF assms(3)] yes_no_cases [OF assms(4)]
  by (rule refl)

theorem logit_formula_witness:
  "map_of diagnosis_offsets ''Colonic lesion'' = Some (-2.342)
   \<and> map_of dbp_offsets (''90'' @ en_dash @ ''100 mmHg'') = Some 1.928
   \<and> yes_option \<in> set yes_no_options \<and> no_option \<in> set yes_no_options
   \<and> logit_from_inputs ''Colonic lesion'' (''90'' @ en_dash @ ''100 mmHg'') 5.6 6.0 130
        yes_option no_option = Some 16.8824"
proof -
  have dx: "map_of diagnosis_offsets ''Colonic lesion'' = Some (-2.342)"
    by (simp add: diagnosis_offsets_def diagnosis_options_def)
  have dbp: "map_of dbp_offsets (''90'' @ en_dash @ ''100 mmHg'') = Some 1.928"
    by (simp add: dbp_offsets_def dbp_options_def en_dash_def)
  have y: "yes_option \<in> set yes_no_options" and n: "no_option \<in> set yes_no_options"
    by (simp_all add: yes_no_options_def)
  have ne: "no_option \<noteq> yes_option" by (simp add: yes_option_def no_option_def)
  show ?thesis
    using logit_formula [OF dx dbp y n, of "5.6" "6.0" 130] dx dbp y n ne by simp
qed

text \<open>
  C2. For every logit \<open>z\<close> the probability is \<open>1 / (1 + exp (- z))\<close>, and the
  layout's branch gives the low tier when the probability is below 0.35, the moderate
  tier from 0.35 up to but not including 0.65, and the high tier from 0.65 on, each with
  its own advice string; a probability of exactly 0.35 is moderate and one of exactly 0.65
  is high.
\<close>

theorem probability_and_tier:
  "logistic z = 1 / (1 + exp (- z))
   \<and> (logistic z < 0.35 \<longrightarrow> risk_tier (logistic z) = (tier_low, advice_low))
   \<and> (0.35 \<le> logistic z \<and> logistic z < 0.65
        \<longrightarrow> risk_tier (logistic z) = (tier_moderate, advice_moderate))
   \<and> (0.65 \<le> logistic z \<longrightarrow> risk_tier (logistic z) = (tier_high, advice_high))
   \<and> risk_tier 0.35 = (tier_moderate, advice_moderate)
   \<and> risk_tier 0.65 = (tier_high, advice_high)"
  by (simp add: risk_tier_def logistic_def)

theorem probability_and_tier_witness:
  "logistic (- 1) < 0.35 \<and> risk_tier (logistic (- 1)) = (tier_low, advice_low)
   \<and> 0.35 \<le> logistic 0 \<and> logistic 0 < 0.65
   \<and> risk_tier (logistic 0) = (tier_moderate, advice_moderate)
   \<and> 0.65 \<le> logistic 1 \<and> risk_tier (logistic 1) = (tier_high, advice_high)"
proof -
  have low: "risk_tier (logistic (- 1)) = (tier_low, advice_low)"
    using probability_and_tier [of "- 1"] logistic_minus_one by blast
  have mid: "0.35 \<le> logistic 0 \<and> logistic 0 < 0.65" by (simp add: logistic_zero)
  hence moderate: "risk_tier (logistic 0) = (tier_moderate, advice_moderate)"
    using probability_and_tier [of 0] by blast
  have high: "risk_tier (logistic 1) = (tier_high, advice_high)"
    using probability_and_tier [of 1] logistic_one by blast
  show ?thesis using low mid moderate high logistic_minus_one logistic_one by blast
qed

text \<open>
  C3 says that the contribution of a dummy level is its weight times (indicator that the
  current value selects the level minus indicator that the baseline value selects it),
  which is \<open>level_delta\<close>. The code multiplies the weight by the indicator of the
  current value alone: it never reads \<open>base["dbp"]\<close>, \<open>base["lax"]\<close> or
  \<open>base["nrs"]\<close>, although the layout collects them and passes them in. With the
  current DBP band at the reference and the baseline band at 90 to 100 mmHg, the code
  stores 0 for that level, where the claim's formula gives \<open>- 1.928\<close>.
\<close>

theorem contributions_baseline_band_unused:
  "contributions ''Gallbladder/pancreatic disease (reference)'' ''< 90 mmHg (reference)''
      5.6 6.0 130 no_option no_option
      (make_base 5.6 6.0 130 (''90'' @ en_dash @ ''100 mmHg'') no_option no_option)
    = Some
      [(''Serum_glucose (mmol/L)'', 0),
       (''Blood_urea_nitrogen (mmol/L)'', 0),
       (''Hemoglobin (g/L)'', 0),
       (''DBP: 90'' @ en_dash @ ''100 mmHg'', 0),
       (''DBP: 101'' @ en_dash @ ''110 mmHg'', 0),
       (''DBP: > 110 mmHg'', 0),
       (''Laxative use (Yes)'', 0),
       (''NRS-2002 '' @ ge_sign @ ''3 (Yes)'', 0),
       (''Diagnosis: Colonic lesion'', 0),
       (''Diagnosis: Gastric neoplasm'', 0),
       (''Diagnosis: Esophageal lesion'', 0),
       (''Diagnosis: Other diseases'', 0)]
   \<and> COEF ''dbp_cat2'' = Some 1.928
   \<and> level_delta 1.928
        (''< 90 mmHg (reference)'' = ''90'' @ en_dash @ ''100 mmHg'')
        (''90'' @ en_dash @ ''100 mmHg'' = ''90'' @ en_dash @ ''100 mmHg'') = - 1.928"
  by (simp add: contributions_closed_form COEF_lookup level_delta_def str_in_yes_no en_dash_def)

text \<open>
  C4 says that the contributions add up to the logit of the current input minus the logit
  of the baseline input. The baseline holds no diagnosis; at the input below the current
  diagnosis is the reference one, so the baseline input has the reference diagnosis
  whichever way that gap is filled. With every current value equal to its baseline
  except that the baseline laxative box says yes, the code returns contributions that
  add up to 0, while the two logits are 14.4704 and 17.2964 and differ by \<open>- 2.826\<close>:
  the baseline laxative selection is not read.
\<close>

theorem contributions_sum_baseline_laxative_unused:
  "map_option (\<lambda>contrib. sum_list (map snd contrib))
     (contributions ''Gallbladder/pancreatic disease (reference)'' ''< 90 mmHg (reference)''
        5.6 6.0 130 no_option no_option
        (make_base 5.6 6.0 130 ''< 90 mmHg (reference)'' yes_option no_option)) = Some 0
   \<and> logit_from_inputs ''Gallbladder/pancreatic disease (reference)'' ''< 90 mmHg (reference)''
        5.6 6.0 130 no_option no_option = Some 14.4704
   \<and> logit_from_inputs ''Gallbladder/pancreatic disease (reference)'' ''< 90 mmHg (reference)''
        5.6 6.0 130 yes_option no_option = Some 17.2964
   \<and> (14.4704 :: real) - 17.2964 = - 2.826"
  by (simp add: contributions_closed_form logit_closed_form str_in_yes_no en_dash_def)

text \<open>
  C5 says that when the baseline equals the current input every contribution is 0. It
  fails at the input below: the diagnosis is the colonic lesion, all other inputs are at
  their defaults, and each of the six baseline values equals the current value. The
  baseline has no diagnosis to compare with, so the level of the current diagnosis keeps
  its whole weight \<open>- 2.342\<close>.
\<close>

theorem contributions_same_baseline_counterexample:
  "contributions ''Colonic lesion'' ''< 90 mmHg (reference)'' 5.6 6.0 130 no_option no_option
      (make_base 5.6 6.0 130 ''< 90 mmHg (reference)'' no_option no_option)
    = Some
      [(''Serum_glucose (mmol/L)'', 0),
       (''Blood_urea_nitrogen (mmol/L)'', 0),
       (''Hemoglobin (g/L)'', 0),
       (''DBP: 90'' @ en_dash @ ''100 mmHg'', 0),
       (''DBP: 101'' @ en_dash @ ''110 mmHg'', 0),
       (''DBP: > 110 mmHg'', 0),
       (''Laxative use (Yes)'', 0),
       (''NRS-2002 '' @ ge_sign @ ''3 (Yes)'', 0),
       (''Diagnosis: Colonic lesion'', - 2.342),
       (''Diagnosis: Gastric neoplasm'', 0),
       (''Diagnosis: Esophageal lesion'', 0),
       (''Diagnosis: Other diseases'', 0)]
   \<and> (- 2.342 :: real) \<noteq> 0"
  by (simp add: contributions_closed_form str_in_yes_no en_dash_def)

text \<open>
  C5, as amended. When the DBP band, the laxative box and the NRS box are at their
  reference options and the six baseline values equal the current ones, the three
  continuous contributions and those of the DBP, laxative and NRS levels are 0, and the
  contribution of a diagnosis level is its weight when the current diagnosis selects it
  and 0 otherwise (the baseline holds no diagnosis); so at the reference diagnosis every
  contribution is 0.
\<close>

theorem contributions_same_baseline:
  "map_option (map snd)
     (contributions diagnosis ''< 90 mmHg (reference)'' glucose bun hb no_option no_option
        (make_base glucose bun hb ''< 90 mmHg (reference)'' no_option no_option))
    = Some [0, 0, 0, 0, 0, 0, 0, 0,
        if diagnosis = ''Colonic lesion'' then - 2.342 else 0,
        if diagnosis = ''Gastric neoplasm'' then - 3.267 else 0,
        if diagnosis = ''Esophageal lesion'' then - 1.344 else 0,
        if diagnosis = ''Other diseases'' then - 1.534 else 0]
   \<and> map_option (map snd)
     (contributions ''Gallbladder/pancreatic disease (reference)'' ''< 90 mmHg (reference)''
        glucose bun hb no_option no_option
        (make_base glucose bun hb ''< 90 mmHg (reference)'' no_option no_option))
    = Some [0, 0, 0, 0, 0, 0, 0, 0, 0, 0, 0, 0]"
  by (simp add: contributions_closed_form str_in_yes_no en_dash_def)

text \<open>
  C6. With the diagnosis and the DBP band at their reference options and both yes/no boxes
  at no, \<open>logit_from_inputs\<close> returns, for every glucose, BUN and haemoglobin value,
  the intercept plus the three weighted values, the four numbers being the entries of
  \<open>COEF\<close>.
\<close>

theorem logit_at_reference_levels:
  "COEF ''intercept'' = Some (-6.18) \<and> COEF ''glucose'' = Some 0.074
   \<and> COEF ''bun'' = Some 0.101 \<and> COEF ''hb'' = Some 0.151
   \<and> logit_from_inputs ''Gallbladder/pancreatic disease (reference)'' ''< 90 mmHg (reference)''
      glucose bun hb no_option no_option
    = Some (-6.18 + 0.074 * glucose + 0.101 * bun + 0.151 * hb)"
  by (simp add: logit_closed_form COEF_lookup str_in_yes_no en_dash_def)

text \<open>
  C7 says that \<open>logistic\<close> is strictly increasing. In double precision it is not:
  with the reference diagnosis, the DBP band 90 to 100 mmHg, glucose 30, BUN 40, both
  yes/no boxes at yes and haemoglobin 199 or 200, \<open>logit_from_inputs\<close> returns two
  different logits (about 40.343 and 40.494), and \<open>1 + exp (- z)\<close> rounds to 1 for
  both, so the probability is exactly 1 twice.
\<close>

theorem logistic_f64_saturation_counterexample:
  "logit_from_inputs_f64 ''Gallbladder/pancreatic disease (reference)''
      (''90'' @ en_dash @ ''100 mmHg'') 30 40 199 yes_option yes_option
    = Some (5677772492718997 / 2 ^ 47)
   \<and> logit_from_inputs_f64 ''Gallbladder/pancreatic disease (reference)''
      (''90'' @ en_dash @ ''100 mmHg'') 30 40 200 yes_option yes_option
    = Some (1424755963365163 / 2 ^ 45)
   \<and> (5677772492718997 / 2 ^ 47 :: real) < 1424755963365163 / 2 ^ 45
   \<and> logistic_f64 (5677772492718997 / 2 ^ 47) = Some 1
   \<and> logistic_f64 (1424755963365163 / 2 ^ 45) = Some 1"
proof -
  have a: "logit_from_inputs_f64 ''Gallbladder/pancreatic disease (reference)''
      (''90'' @ en_dash @ ''100 mmHg'') 30 40 199 yes_option yes_option
    = Some (5677772492718997 / 2 ^ 47)"
    unfolding logit_f64_closed_form
    by (simp add: cadd_def fadd_def fmul_def fl_minus fl_values str_in_yes_no en_dash_def)
  have b: "logit_from_inputs_f64 ''Gallbladder/pancreatic disease (reference)''
      (''90'' @ en_dash @ ''100 mmHg'') 30 40 200 yes_option yes_option
    = Some (1424755963365163 / 2 ^ 45)"
    unfolding logit_f64_closed_form
    by (simp add: cadd_def fadd_def fmul_def fl_minus fl_values str_in_yes_no en_dash_def)
  have c: "logistic_f64 (5677772492718997 / 2 ^ 47) = Some 1"
    by (rule logistic_f64_saturated) simp
  have d: "logistic_f64 (1424755963365163 / 2 ^ 45) = Some 1"
    by (rule logistic_f64_saturated) simp
  show ?thesis using a b c d by simp
qed

text \<open>
  C7, as amended. \<open>logistic\<close> is nondecreasing: for every pair of logits
  \<open>z1 \<le> z2\<close> it returns probabilities \<open>p1 \<le> p2\<close>; and the probability at logit 0
  is 0.5.
\<close>

theorem logistic_f64_nondecreasing:
  "(z1 \<le> z2 \<longrightarrow>
      (\<exists>p1 p2. logistic_f64 z1 = Some p1 \<and> logistic_f64 z2 = Some p2 \<and> p1 \<le> p2))
   \<and> logistic_f64 0 = Some 0.5"
proof -
  have "logistic_f64 0 = Some 0.5"
    unfolding logistic_f64_value by (simp add: fl_one fl_two fl_half)
  thus ?thesis using logistic_f64_mono [of z1 z2] by (simp add: logistic_f64_value)
qed

theorem logistic_f64_nondecreasing_witness:
  "(0::real) \<le> 1
   \<and> (\<exists>p1 p2. logistic_f64 0 = Some p1 \<and> logistic_f64 1 = Some p2 \<and> p1 \<le> p2)
   \<and> logistic_f64 0 = Some 0.5"
proof -
  have "(0::real) \<le> 1" by simp
  thus ?thesis using logistic_f64_nondecreasing [of 0 1] by blast
qed

text \<open>
  C8. The worked example: reference diagnosis, reference DBP band, glucose 5.6, BUN 6.0,
  haemoglobin 130, no laxative, no NRS flag. The logit is
  \<open>-6.18 + 0.074 * 5.6 + 0.101 * 6.0 + 0.151 * 130 = 14.4704\<close>, the probability lies
  between 0.9999 and 1, and the tier is the high one.
\<close>

theorem worked_example:
  "logit_from_inputs ''Gallbladder/pancreatic disease (reference)'' ''< 90 mmHg (reference)''
      5.6 6.0 130 no_option no_option = Some 14.4704
   \<and> (14.4704 :: real) = -6.18 + 0.074 * 5.6 + 0.101 * 6.0 + 0.151 * 130
   \<and> prediction ''Gallbladder/pancreatic disease (reference)'' ''< 90 mmHg (reference)''
      5.6 6.0 130 no_option no_option = Some (logistic 14.4704, tier_high, advice_high)
   \<and> 0.9999 < logistic 14.4704 \<and> logistic 14.4704 < 1"
proof -
  have z: "logit_from_inputs ''Gallbladder/pancreatic disease (reference)''
      ''< 90 mmHg (reference)'' 5.6 6.0 130 no_option no_option = Some 14.4704"
    by (simp add: logit_closed_form str_in_yes_no en_dash_def)
  have tier: "risk_tier (logistic 14.4704) = (tier_high, advice_high)"
    using logistic_example_bounds by (simp add: risk_tier_def)
  have "prediction ''Gallbladder/pancreatic disease (reference)'' ''< 90 mmHg (reference)''
      5.6 6.0 130 no_option no_option = Some (logistic 14.4704, tier_high, advice_high)"
    unfolding prediction_def z using tier by (simp add: Let_def)
  with z show ?thesis using logistic_example_bounds logistic_less_one [of "14.4704"] by simp
qed

text \<open>
  C9. Two baselines with the same glucose, BUN and haemoglobin give the same result of
  \<open>contributions\<close>, whatever their DBP band, laxative and NRS selections are; and
  the function does return a result.
\<close>

theorem contributions_baseline_selections_unused:
  "contributions diagnosis dbp_cat glucose bun hb lax nrs
      (make_base base_glu base_bun base_hb base_dbp base_lax base_nrs)
    = contributions diagnosis dbp_cat glucose bun hb lax nrs
      (make_base base_glu base_bun base_hb base_dbp' base_lax' base_nrs')
   \<and> contributions diagnosis dbp_cat glucose bun hb lax nrs
      (make_base base_glu base_bun base_hb base_dbp base_lax base_nrs) \<noteq> None"
  by (simp add: contributions_closed_form)

text \<open>
  C10 says that the contributions add up to the logit of the current input minus the
  logit of the input with the baseline's glucose, BUN and haemoglobin and every
  categorical input at its reference option. The two functions round separately, and
  the numbers they return do not satisfy the identity: at Gastric neoplasm, > 110 mmHg,
  glucose 7.0, BUN 10.0, haemoglobin 100, laxative yes, NRS yes, with the default baseline
  5.6, 6.0, 130, the contributions add up to 0.8285999999999993 (added from left to
  right; 0.8285999999999999 when added exactly), while the difference of the logits
  15.299000000000003 and 14.470399999999998 is 0.8286000000000051.
\<close>

theorem contributions_sum_f64_counterexample:
  "contributions_f64 ''Gastric neoplasm'' ''> 110 mmHg'' 7 10 100 yes_option yes_option
      (make_base (fl 5.6) 6 130 ''< 90 mmHg (reference)'' no_option no_option)
    = Some
      [(''Serum_glucose (mmol/L)'', 933145842791167 / 2 ^ 53),
       (''Blood_urea_nitrogen (mmol/L)'', 3638908498915361 / 2 ^ 53),
       (''Hemoglobin (g/L)'', - (5100326577997087 / 2 ^ 50)),
       (''DBP: 90'' @ en_dash @ ''100 mmHg'', 0),
       (''DBP: 101'' @ en_dash @ ''110 mmHg'', 0),
       (''DBP: > 110 mmHg'', - (6052837899185947 / 2 ^ 55)),
       (''Laxative use (Yes)'', 6363586273474511 / 2 ^ 51),
       (''NRS-2002 '' @ ge_sign @ ''3 (Yes)'', 6147413491360727 / 2 ^ 50),
       (''Diagnosis: Colonic lesion'', 0),
       (''Diagnosis: Gastric neoplasm'', - (7356629991309705 / 2 ^ 51)),
       (''Diagnosis: Esophageal lesion'', 0),
       (''Diagnosis: Other diseases'', 0)]
   \<and> sum_f64 [933145842791167 / 2 ^ 53, 3638908498915361 / 2 ^ 53,
        - (5100326577997087 / 2 ^ 50), 0, 0, - (6052837899185947 / 2 ^ 55),
        6363586273474511 / 2 ^ 51, 6147413491360727 / 2 ^ 50, 0,
        - (7356629991309705 / 2 ^ 51), 0, 0] = 1865841325619595 / 2 ^ 51
   \<and> logit_from_inputs_f64 ''Gastric neoplasm'' ''> 110 mmHg'' 7 10 100 yes_option yes_option
    = Some (4306285668696327 / 2 ^ 48)
   \<and> logit_from_inputs_f64 ''Gallbladder/pancreatic disease (reference)''
      ''< 90 mmHg (reference)'' (fl 5.6) 6 130 no_option no_option
    = Some (1018263875748469 / 2 ^ 46)
   \<and> fsub (4306285668696327 / 2 ^ 48) (1018263875748469 / 2 ^ 46) = 233230165702451 / 2 ^ 48
   \<and> (1865841325619595 / 2 ^ 51 :: real) < 0.8285999999999994
   \<and> (0.828600000000005 :: real) < 233230165702451 / 2 ^ 48"
proof -
  have c: "contributions_f64 ''Gastric neoplasm'' ''> 110 mmHg'' 7 10 100 yes_option yes_option
      (make_base (fl 5.6) 6 130 ''< 90 mmHg (reference)'' no_option no_option)
    = Some
      [(''Serum_glucose (mmol/L)'', 933145842791167 / 2 ^ 53),
       (''Blood_urea_nitrogen (mmol/L)'', 3638908498915361 / 2 ^ 53),
       (''Hemoglobin (g/L)'', - (5100326577997087 / 2 ^ 50)),
       (''DBP: 90'' @ en_dash @ ''100 mmHg'', 0),
       (''DBP: 101'' @ en_dash @ ''110 mmHg'', 0),
       (''DBP: > 110 mmHg'', - (6052837899185947 / 2 ^ 55)),
       (''Laxative use (Yes)'', 6363586273474511 / 2 ^ 51),
       (''NRS-2002 '' @ ge_sign @ ''3 (Yes)'', 6147413491360727 / 2 ^ 50),
       (''Diagnosis: Colonic lesion'', 0),
       (''Diagnosis: Gastric neoplasm'', - (7356629991309705 / 2 ^ 51)),
       (''Diagnosis: Esophageal lesion'', 0),
       (''Diagnosis: Other diseases'', 0)]"
    unfolding contributions_f64_closed_form
    by (simp add: fsub_def fmul_def fl_minus fl_values str_in_yes_no en_dash_def)
  have s: "sum_f64 [933145842791167 / 2 ^ 53, 3638908498915361 / 2 ^ 53,
        - (5100326577997087 / 2 ^ 50), 0, 0, - (6052837899185947 / 2 ^ 55),
        6363586273474511 / 2 ^ 51, 6147413491360727 / 2 ^ 50, 0,
        - (7356629991309705 / 2 ^ 51), 0, 0] = 1865841325619595 / 2 ^ 51"
    by (simp add: sum_f64_def fadd_def fl_minus fl_values)
  have z: "logit_from_inputs_f64 ''Gastric neoplasm'' ''> 110 mmHg'' 7 10 100 yes_option yes_option
    = Some (4306285668696327 / 2 ^ 48)"
    unfolding logit_f64_closed_form
    by (simp add: cadd_def fadd_def fmul_def fl_minus fl_values str_in_yes_no en_dash_def)
  have zb: "logit_from_inputs_f64 ''Gallbladder/pancreatic disease (reference)''
      ''< 90 mmHg (reference)'' (fl 5.6) 6 130 no_option no_option
    = Some (1018263875748469 / 2 ^ 46)"
    unfolding logit_f64_closed_form
    by (simp add: cadd_def fadd_def fmul_def fl_minus fl_values str_in_yes_no en_dash_def)
  have d: "fsub (4306285668696327 / 2 ^ 48) (1018263875748469 / 2 ^ 46)
      = 233230165702451 / 2 ^ 48"
    by (simp add: fsub_def fl_minus fl_values)
  have n: "(1865841325619595 / 2 ^ 51 :: real) < 0.8285999999999994"
    "(0.828600000000005 :: real) < 233230165702451 / 2 ^ 48"
    by simp_all
  show ?thesis using c s z zb d n by (intro conjI)
qed

text \<open>
  C10, as amended. For every current input and every baseline whose glucose, BUN and
  haemoglobin lie in the ranges of the widgets (2 to 30, 0 to 40, 60 to 200), the sum of
  the contributions differs from that difference of logits by at most \<open>1 / 10 ^ 12\<close>,
  whether the sum and the difference are themselves computed in doubles or exactly.
\<close>

theorem contributions_sum_f64_close:
  assumes "2 \<le> glucose" "glucose \<le> 30" "0 \<le> bun" "bun \<le> 40" "60 \<le> hb" "hb \<le> 200"
    and "2 \<le> base_glu" "base_glu \<le> 30" "0 \<le> base_bun" "base_bun \<le> 40"
    and "60 \<le> base_hb" "base_hb \<le> 200"
  shows "\<exists>contrib z z_base.
     contributions_f64 diagnosis dbp_cat glucose bun hb lax nrs
       (make_base base_glu base_bun base_hb base_dbp base_lax base_nrs) = Some contrib
   \<and> logit_from_inputs_f64 diagnosis dbp_cat glucose bun hb lax nrs = Some z
   \<and> logit_from_inputs_f64 ''Gallbladder/pancreatic disease (reference)''
       ''< 90 mmHg (reference)'' base_glu base_bun base_hb no_option no_option = Some z_base
   \<and> \<bar>sum_f64 (map snd contrib) - fsub z z_base\<bar> \<le> 1 / 10 ^ 12
   \<and> \<bar>sum_list (map snd contrib) - (z - z_base)\<bar> \<le> 1 / 10 ^ 12"
proof -
  let ?S = "contributions_unrounded diagnosis dbp_cat glucose bun hb lax nrs
      base_glu base_bun base_hb"
  let ?Z = "logit_unrounded diagnosis dbp_cat glucose bun hb lax nrs"
  let ?B = "logit_unrounded ''Gallbladder/pancreatic disease (reference)''
      ''< 90 mmHg (reference)'' base_glu base_bun base_hb no_option no_option"
  have dg: "\<bar>glucose - base_glu\<bar> \<le> 28" and db: "\<bar>bun - base_bun\<bar> \<le> 40"
    and dh: "\<bar>hb - base_hb\<bar> \<le> 140"
    and ag: "\<bar>glucose\<bar> \<le> 30" and ab: "\<bar>bun\<bar> \<le> 40" and ah: "\<bar>hb\<bar> \<le> 200"
    and bg: "\<bar>base_glu\<bar> \<le> 30" and bb: "\<bar>base_bun\<bar> \<le> 40" and bh: "\<bar>base_hb\<bar> \<le> 200"
    using assms by linarith+
  obtain contrib where c:
    "contributions_f64 diagnosis dbp_cat glucose bun hb lax nrs
       (make_base base_glu base_bun base_hb base_dbp base_lax base_nrs) = Some contrib"
    and cf: "near (sum_f64 (map snd contrib)) ?S (27 * delta) 100"
    and ce: "near (sum_list (map snd contrib)) ?S (15 * delta) 100"
    using contributions_f64_near [OF dg db dh] by blast
  obtain z where z: "logit_from_inputs_f64 diagnosis dbp_cat glucose bun hb lax nrs = Some z"
    and zn: "near z ?Z (15 * delta) 100"
    using logit_f64_near [OF ag ab ah] by blast
  obtain z_base where zb: "logit_from_inputs_f64 ''Gallbladder/pancreatic disease (reference)''
       ''< 90 mmHg (reference)'' base_glu base_bun base_hb no_option no_option = Some z_base"
    and zbn: "near z_base ?B (15 * delta) 100"
    using logit_f64_near [OF bg bb bh] by blast
  have id: "?S = ?Z - ?B" by (rule unrounded_identity)
  have small: "58 * delta \<le> 1 / 10 ^ 12" by (simp add: delta_def)
  have e1: "\<bar>sum_f64 (map snd contrib) - ?S\<bar> \<le> 27 * delta"
    and e2: "\<bar>sum_list (map snd contrib) - ?S\<bar> \<le> 15 * delta"
    and e3: "\<bar>z - ?Z\<bar> \<le> 15 * delta" and e4: "\<bar>z_base - ?B\<bar> \<le> 15 * delta"
    and bS: "\<bar>?S\<bar> \<le> 100"
    using cf ce zn zbn by (simp_all add: near_def)
  have "\<bar>z - z_base\<bar> \<le> 128" using e3 e4 bS id delta_bounds by linarith
  hence r: "\<bar>fsub z z_base - (z - z_base)\<bar> \<le> delta"
    unfolding fsub_def by (rule fl_error_128)
  have A: "\<bar>sum_f64 (map snd contrib) - fsub z z_base\<bar> \<le> 1 / 10 ^ 12"
    using e1 e3 e4 r id small by linarith
  have B: "\<bar>sum_list (map snd contrib) - (z - z_base)\<bar> \<le> 1 / 10 ^ 12"
    using e2 e3 e4 id small delta_bounds by linarith
  show ?thesis using c z zb A B by blast
qed

theorem contributions_sum_f64_close_witness:
  "(2::real) \<le> 7 \<and> (7::real) \<le> 30 \<and> (0::real) \<le> 10 \<and> (10::real) \<le> 40
   \<and> (60::real) \<le> 100 \<and> (100::real) \<le> 200
   \<and> 2 \<le> fl 5.6 \<and> fl 5.6 \<le> 30 \<and> (0::real) \<le> 6 \<and> (6::real) \<le> 40
   \<and> (60::real) \<le> 130 \<and> (130::real) \<le> 200
   \<and> (\<exists>contrib z z_base.
     contributions_f64 ''Gastric neoplasm'' ''> 110 mmHg'' 7 10 100 yes_option yes_option
       (make_base (fl 5.6) 6 130 ''< 90 mmHg (reference)'' no_option no_option) = Some contrib
   \<and> logit_from_inputs_f64 ''Gastric neoplasm'' ''> 110 mmHg'' 7 10 100 yes_option yes_option
       = Some z
   \<and> logit_from_inputs_f64 ''Gallbladder/pancreatic disease (reference)''
       ''< 90 mmHg (reference)'' (fl 5.6) 6 130 no_option no_option = Some z_base
   \<and> \<bar>sum_f64 (map snd contrib) - fsub z z_base\<bar> \<le> 1 / 10 ^ 12
   \<and> \<bar>sum_list (map snd contrib) - (z - z_base)\<bar> \<le> 1 / 10 ^ 12)"
proof -
  have b: "2 \<le> fl 5.6" "fl 5.6 \<le> 30" by (simp_all add: fl_values)
  show ?thesis
    using b contributions_sum_f64_close [of 7 10 100 "fl 5.6" 6 130 "''Gastric neoplasm''"
        "''> 110 mmHg''" yes_option yes_option "''< 90 mmHg (reference)''" no_option no_option]
    by simp
qed

end
